theory Spec2Isabelle
  imports
    Complex_Main
    "HOL-Library.Char_ord"
    "HOL-Library.List_Lexorder"
    "HOL-Library.Option_ord"
    "HOL-Library.Multiset"
begin

section \<open>The sales forecast script (forecast.py)\<close>

text \<open>
  The script is one module-level block: it loads a table of sales records, walks the
  configured forecast levels, hands every group of records to the Prophet library, merges
  the actual values back, writes one combined table and pushes it with git. Everything is
  wrapped in a single \<^verbatim>\<open>try: ... except Exception\<close>.

  Prophet, the file system, git and the clock are outside the repository; they are
  parameters of the model. Floating point numbers are only copied by the script, never
  computed with, and are modelled as \<^typ>\<open>real\<close>; a missing number (NaN) is \<^term>\<open>None\<close>.
\<close>

subsection \<open>Data\<close>

type_synonym colname = string

text \<open>
  A timestamp of the \<^verbatim>\<open>ds\<close> column, at day resolution. The loaded dates are taken
  to be valid timestamps: a missing date (NaT) is not modelled.
\<close>

record date =
  year :: nat
  month :: nat
  day :: nat

text \<open>
  One record of the loaded table after lines 34-35: the date \<^verbatim>\<open>ds\<close>, the value
  \<^verbatim>\<open>y\<close> and the categorical cells, which are strings. A cell that is absent from
  \<open>attrs\<close> is null. The frame lists the categorical columns it has: a column may exist
  and be null in every row.
\<close>

record sales_row =
  ds :: date
  y_value :: "real option"
  attrs :: "(colname \<times> string) list"

record dataframe =
  columns :: "colname list"
  rows :: "sales_row list"

definition cell :: "sales_row \<Rightarrow> colname \<Rightarrow> string option" where
  "cell r c = map_of (attrs r) c"

text \<open>A row of \<^verbatim>\<open>prophet_df\<close>, that is of \<^verbatim>\<open>group_df[['ds', 'y']]\<close>.\<close>

type_synonym point = "date \<times> real option"

datatype exn =
  KeyError "colname list"
  | ValueError string
  | ProphetError string
  | OSError string
  | LoadError string

subsection \<open>Configuration (lines 10-23)\<close>

text \<open>\<^verbatim>\<open>os.path.join(OUTPUT_DIR, 'sales_forecast.csv')\<close>, with the separator of POSIX.\<close>

definition OUTPUT_CSV :: string where
  "OUTPUT_CSV = ''output/sales_forecast.csv''"

definition FORECAST_PERIOD_MONTHS :: nat where
  "FORECAST_PERIOD_MONTHS = 3"

text \<open>The dictionary keeps its insertion order, so it is an association list.\<close>

definition FORECAST_LEVELS :: "(string \<times> colname list) list" where
  "FORECAST_LEVELS =
     [(''Overall'', []),
      (''By_BCode'', [''BCode'']),
      (''By_BCode_Product'', [''BCode'', ''ProductCode'']),
      (''By_BCode_PSR'', [''BCode'', ''PSRCode'']),
      (''By_BCode_Customer'', [''BCode'', ''CustomerName''])]"

text \<open>Line 38: \<^verbatim>\<open>sorted(list(set(itertools.chain.from_iterable(...))))\<close>.\<close>

definition all_key_cols_flat :: "(string \<times> colname list) list \<Rightarrow> colname list" where
  "all_key_cols_flat levels = sort (remdups (concat (map snd levels)))"

subsection \<open>The external collaborators\<close>

text \<open>
  Prophet is used through three calls: \<^verbatim>\<open>fit\<close>, \<^verbatim>\<open>make_future_dataframe\<close>
  and \<^verbatim>\<open>predict\<close>. \<^verbatim>\<open>fit\<close> and \<^verbatim>\<open>predict\<close> may raise. Of the frame that
  \<^verbatim>\<open>predict\<close> returns only the four columns that reach the output are kept.
\<close>

datatype freq = MS

record prediction =
  p_ds :: date
  yhat :: real
  yhat_lower :: real
  yhat_upper :: real

record 'm prophet =
  fit :: "point list \<Rightarrow> exn + 'm"
  make_future_dataframe :: "'m \<Rightarrow> nat \<Rightarrow> freq \<Rightarrow> date list"
  predict :: "'m \<Rightarrow> date list \<Rightarrow> exn + prediction list"

text \<open>
  What \<^verbatim>\<open>subprocess.run(..., check=True)\<close> does: it returns with the standard
  output, raises \<^verbatim>\<open>FileNotFoundError\<close> when the program is missing, raises
  \<^verbatim>\<open>CalledProcessError\<close> (with stderr and stdout) on a non-zero exit status, or raises
  something else.
\<close>

datatype proc =
  Completed string
  | FileNotFoundError
  | CalledProcessError string string
  | OtherProcError exn

record env =
  write_error :: "exn option"
  git :: "string list \<Rightarrow> proc"
  now :: string

subsection \<open>Forecast frames\<close>

text \<open>
  A row of a group's \<^verbatim>\<open>forecast\<close> frame after lines 76-85: the prediction, the level
  name, the group's key columns and the merged \<^verbatim>\<open>Actual\<close>.
\<close>

record fc_row =
  f_ds :: date
  f_yhat :: real
  f_yhat_lower :: real
  f_yhat_upper :: real
  ForecastLevel :: string
  key_cols :: "(colname \<times> string option) list"
  Actual :: "real option"

definition date_key :: "date \<Rightarrow> nat" where
  "date_key d = year d * 10000 + month d * 100 + day d"

text \<open>
  \<^verbatim>\<open>group_df[['ds', 'y']].sort_values('ds')\<close>. Rows with the same date keep their
  order here; pandas leaves the order of ties open.
\<close>

definition select_ds_y :: "sales_row list \<Rightarrow> point list" where
  "select_ds_y rs = map (\<lambda>r. (ds r, y_value r)) rs"

definition sort_values :: "point list \<Rightarrow> point list" where
  "sort_values ps = sort_key (\<lambda>p. date_key (fst p)) ps"

text \<open>Lines 76-82: the level name and the group's key values, on every row.\<close>

definition tag :: "string \<Rightarrow> (colname \<times> string option) list \<Rightarrow> prediction \<Rightarrow> fc_row" where
  "tag level_name kvs p =
     \<lparr>f_ds = p_ds p, f_yhat = yhat p, f_yhat_lower = yhat_lower p, f_yhat_upper = yhat_upper p,
      ForecastLevel = level_name, key_cols = kvs, Actual = None\<rparr>"

text \<open>
  Line 85: \<^verbatim>\<open>forecast.merge(prophet_df.rename(columns={'y': 'Actual'}), on='ds', how='left')\<close>.
  A left join: every row of \<^verbatim>\<open>forecast\<close> is kept, in order; it is repeated once for
  every row of \<^verbatim>\<open>prophet_df\<close> with the same date, and has a null \<^verbatim>\<open>Actual\<close>
  when there is none.
\<close>

definition merge_row :: "point list \<Rightarrow> fc_row \<Rightarrow> fc_row list" where
  "merge_row prophet_df r =
     (case filter (\<lambda>p. fst p = f_ds r) prophet_df of
        [] \<Rightarrow> [r\<lparr>Actual := None\<rparr>]
      | m # ms \<Rightarrow> map (\<lambda>p. r\<lparr>Actual := snd p\<rparr>) (m # ms))"

definition merge_actuals :: "fc_row list \<Rightarrow> point list \<Rightarrow> fc_row list" where
  "merge_actuals forecast prophet_df = concat (map (merge_row prophet_df) forecast)"

text \<open>
  Lines 66-87 (and 96-104 for the level without keys, which runs the same statements
  with no key column): the forecast frame of one group, or the exception that
  \<^verbatim>\<open>fit\<close> or \<^verbatim>\<open>predict\<close> raised.
\<close>

definition forecast_group ::
  "'m prophet \<Rightarrow> string \<Rightarrow> colname list \<Rightarrow> string option list \<Rightarrow> sales_row list
     \<Rightarrow> exn + fc_row list" where
  "forecast_group P level_name group_by_cols group_keys group_df =
     (let prophet_df = sort_values (select_ds_y group_df) in
      case fit P prophet_df of
        Inl e \<Rightarrow> Inl e
      | Inr model \<Rightarrow>
          (let future = make_future_dataframe P model FORECAST_PERIOD_MONTHS MS in
           case predict P model future of
             Inl e \<Rightarrow> Inl e
           | Inr forecast \<Rightarrow>
               Inr (merge_actuals
                      (map (tag level_name (zip group_by_cols group_keys)) forecast)
                      prophet_df)))"

subsection \<open>Grouping (lines 46-57)\<close>

text \<open>
  \<^verbatim>\<open>dropna(subset=group_by_cols)\<close> raises \<^verbatim>\<open>KeyError\<close> when a column is not in
  the frame; otherwise it keeps the rows with no null in any of the columns.
\<close>

definition dropna :: "dataframe \<Rightarrow> colname list \<Rightarrow> exn + dataframe" where
  "dropna frame subset_cols =
     (if list_all (\<lambda>c. c \<in> set (columns frame)) subset_cols
      then Inr (frame\<lparr>rows :=
                  filter (\<lambda>r. list_all (\<lambda>c. cell r c \<noteq> None) subset_cols) (rows frame)\<rparr>)
      else Inl (KeyError (filter (\<lambda>c. c \<notin> set (columns frame)) subset_cols)))"

definition group_key :: "colname list \<Rightarrow> sales_row \<Rightarrow> string option list" where
  "group_key group_by_cols r = map (cell r) group_by_cols"

text \<open>
  \<^verbatim>\<open>groupby\<close> yields one pair of key tuple and rows per distinct key tuple, the keys in
  ascending order, the rows of a group in their order in the frame.
\<close>

definition groupby :: "dataframe \<Rightarrow> colname list \<Rightarrow> (string option list \<times> sales_row list) list" where
  "groupby frame group_by_cols =
     map (\<lambda>k. (k, filter (\<lambda>r. group_key group_by_cols r = k) (rows frame)))
       (sort (remdups (map (group_key group_by_cols) (rows frame))))"

subsection \<open>The loop over levels and groups (lines 41-105)\<close>

text \<open>
  The state of the loop: the loaded table \<^verbatim>\<open>df\<close> and the list
  \<^verbatim>\<open>all_forecasts\<close>. \<^verbatim>\<open>current_df\<close> is bound anew in every iteration.
\<close>

record state =
  df :: dataframe
  all_forecasts :: "fc_row list list"

text \<open>Lines 57-87: groups with fewer than two rows are passed over.\<close>

fun forecast_groups ::
  "'m prophet \<Rightarrow> string \<Rightarrow> colname list \<Rightarrow> (string option list \<times> sales_row list) list
     \<Rightarrow> state \<Rightarrow> exn + state" where
  "forecast_groups P level_name group_by_cols [] s = Inr s"
| "forecast_groups P level_name group_by_cols ((group_keys, group_df) # grouped) s =
     (if length group_df < 2 then forecast_groups P level_name group_by_cols grouped s
      else
        (case forecast_group P level_name group_by_cols group_keys group_df of
           Inl e \<Rightarrow> Inl e
         | Inr forecast \<Rightarrow>
             forecast_groups P level_name group_by_cols grouped
               (s\<lparr>all_forecasts := all_forecasts s @ [forecast]\<rparr>)))"

text \<open>One iteration of the loop of line 41.\<close>

definition process_level :: "'m prophet \<Rightarrow> string \<times> colname list \<Rightarrow> state \<Rightarrow> exn + state" where
  "process_level P level s =
     (let level_name = fst level; group_by_cols = snd level; current_df = df s in
      if group_by_cols \<noteq> [] then
        (case dropna current_df group_by_cols of
           Inl e \<Rightarrow> Inl e
         | Inr current_df \<Rightarrow>
             if rows current_df = [] then Inr s
             else forecast_groups P level_name group_by_cols
                    (groupby current_df group_by_cols) s)
      else
        (if length (rows current_df) < 2 then Inr s
         else
           (case forecast_group P level_name [] [] (rows current_df) of
              Inl e \<Rightarrow> Inl e
            | Inr forecast \<Rightarrow> Inr (s\<lparr>all_forecasts := all_forecasts s @ [forecast]\<rparr>))))"

fun run_levels :: "'m prophet \<Rightarrow> (string \<times> colname list) list \<Rightarrow> state \<Rightarrow> exn + state" where
  "run_levels P [] s = Inr s"
| "run_levels P (level # levels) s =
     (case process_level P level s of
        Inl e \<Rightarrow> Inl e
      | Inr s' \<Rightarrow> run_levels P levels s')"

subsection \<open>The combined table (lines 112-125)\<close>

datatype out_cell = Null | Str string | Num real

record table =
  header :: "colname list"
  body :: "out_cell list list"

text \<open>
  \<^verbatim>\<open>strftime('%Y-%m-%d')\<close>. A pandas timestamp has a year from 1677 to 2262, so the
  year has four digits.
\<close>

definition digit :: "nat \<Rightarrow> char" where
  "digit n = ''0123456789'' ! (n mod 10)"

definition strftime :: "date \<Rightarrow> string" where
  "strftime d =
     [digit (year d div 1000), digit (year d div 100), digit (year d div 10), digit (year d),
      CHR ''-'', digit (month d div 10), digit (month d),
      CHR ''-'', digit (day d div 10), digit (day d)]"

text \<open>
  The columns of one row of the concatenated frame after the renaming of line 115 and the
  formatting of line 116, in the frame's column order.
\<close>

definition opt_str :: "string option \<Rightarrow> out_cell" where
  "opt_str v = (case v of None \<Rightarrow> Null | Some s \<Rightarrow> Str s)"

definition opt_num :: "real option \<Rightarrow> out_cell" where
  "opt_num v = (case v of None \<Rightarrow> Null | Some x \<Rightarrow> Num x)"

definition row_cells :: "fc_row \<Rightarrow> (colname \<times> out_cell) list" where
  "row_cells r =
     [(''Date'', Str (strftime (f_ds r))),
      (''Forecast'', Num (f_yhat r)),
      (''Forecast_Low'', Num (f_yhat_lower r)),
      (''Forecast_High'', Num (f_yhat_upper r)),
      (''ForecastLevel'', Str (ForecastLevel r))]
     @ map (\<lambda>kv. (fst kv, opt_str (snd kv))) (key_cols r)
     @ [(''Actual'', opt_num (Actual r))]"

definition final_output_cols :: "(string \<times> colname list) list \<Rightarrow> colname list" where
  "final_output_cols levels =
     [''Date'', ''ForecastLevel''] @ all_key_cols_flat levels
     @ [''Actual'', ''Forecast'', ''Forecast_Low'', ''Forecast_High'']"

text \<open>
  Lines 119-125: a column that a row does not have is null, whether \<^verbatim>\<open>concat\<close> or
  line 121 filled it.
\<close>

definition select_cols :: "colname list \<Rightarrow> fc_row \<Rightarrow> out_cell list" where
  "select_cols cols r =
     map (\<lambda>c. case map_of (row_cells r) c of None \<Rightarrow> Null | Some v \<Rightarrow> v) cols"

definition final_df :: "(string \<times> colname list) list \<Rightarrow> fc_row list list \<Rightarrow> table" where
  "final_df levels frames =
     \<lparr>header = final_output_cols levels,
      body = map (select_cols (final_output_cols levels)) (concat frames)\<rparr>"

text \<open>The cell of a row of the table under a column name.\<close>

definition cell_at :: "table \<Rightarrow> out_cell list \<Rightarrow> colname \<Rightarrow> out_cell option" where
  "cell_at t row c = map_of (zip (header t) row) c"

subsection \<open>Publishing with git (lines 139-164)\<close>

datatype publish_result = Pushed | No_Changes | Git_Not_Found | Git_Error string string

text \<open>\<^verbatim>\<open>.replace('\\', '/')\<close> and the substring test \<^verbatim>\<open>in\<close> of line 146.\<close>

definition normalize_path :: "string \<Rightarrow> string" where
  "normalize_path s = map (\<lambda>c. if c = CHR 0x5C then CHR ''/'' else c) s"

fun str_in :: "string \<Rightarrow> string \<Rightarrow> bool" where
  "str_in s [] = (s = [])"
| "str_in s (c # cs) = (take (length s) (c # cs) = s \<or> str_in s cs)"

text \<open>
  One \<^verbatim>\<open>subprocess.run\<close> inside the inner \<^verbatim>\<open>try\<close>: the two \<^verbatim>\<open>except\<close>
  clauses of lines 156-161 end the publishing, any other exception leaves the block.
\<close>

definition subprocess_run ::
  "proc \<Rightarrow> (string \<Rightarrow> exn + publish_result) \<Rightarrow> exn + publish_result" where
  "subprocess_run p continue =
     (case p of
        Completed out \<Rightarrow> continue out
      | FileNotFoundError \<Rightarrow> Inr Git_Not_Found
      | CalledProcessError err out \<Rightarrow> Inr (Git_Error err out)
      | OtherProcError e \<Rightarrow> Inl e)"

definition publish :: "env \<Rightarrow> exn + publish_result" where
  "publish E =
     subprocess_run (git E [''git'', ''add'', OUTPUT_CSV]) (\<lambda>_.
       let commit_message = ''Auto-update sales forecast: '' @ now E in
       subprocess_run (git E [''git'', ''status'', ''--porcelain'']) (\<lambda>stdout.
         if str_in (normalize_path OUTPUT_CSV) (normalize_path stdout) then
           subprocess_run (git E [''git'', ''commit'', ''-m'', commit_message]) (\<lambda>_.
             subprocess_run (git E [''git'', ''push'']) (\<lambda>_. Inr Pushed))
         else Inr No_Changes))"

subsection \<open>The script (lines 26-174)\<close>

text \<open>
  What a run leaves behind: the table it wrote to the output file (\<^term>\<open>None\<close> when it
  wrote none), what it reported (the handler of line 167 or the end of the publishing),
  and the exit status of the process. The script never calls \<^verbatim>\<open>sys.exit\<close> and the
  handler of line 167 re-raises nothing, so the interpreter reaches the last line and
  exits with status 0.
\<close>

datatype finish = Script_Failed exn | Finished publish_result

record outcome =
  output_file :: "table option"
  report :: finish
  exit_status :: nat

text \<open>
  The body of the outer \<^verbatim>\<open>try\<close>. The argument \<open>loaded\<close> is the result of lines
  31-35 (reading the file, renaming the columns, parsing the dates), which may raise.
\<close>

definition script_body ::
  "'m prophet \<Rightarrow> env \<Rightarrow> (string \<times> colname list) list \<Rightarrow> exn + dataframe
     \<Rightarrow> table option \<times> (exn + publish_result)" where
  "script_body P E levels loaded =
     (case loaded of
        Inl e \<Rightarrow> (None, Inl e)
      | Inr frame \<Rightarrow>
          (case run_levels P levels \<lparr>df = frame, all_forecasts = []\<rparr> of
             Inl e \<Rightarrow> (None, Inl e)
           | Inr s \<Rightarrow>
               if all_forecasts s = [] then
                 (None, Inl (ValueError
                   ''No forecasts were generated. Check input data and FORECAST_LEVELS configuration.''))
               else
                 (case write_error E of
                    Some e \<Rightarrow> (None, Inl e)
                  | None \<Rightarrow> (Some (final_df levels (all_forecasts s)), publish E))))"

definition main ::
  "'m prophet \<Rightarrow> env \<Rightarrow> (string \<times> colname list) list \<Rightarrow> exn + dataframe \<Rightarrow> outcome" where
  "main P E levels loaded =
     (case script_body P E levels loaded of
        (file, Inl e) \<Rightarrow> \<lparr>output_file = file, report = Script_Failed e, exit_status = 0\<rparr>
      | (file, Inr p) \<Rightarrow> \<lparr>output_file = file, report = Finished p, exit_status = 0\<rparr>)"

subsection \<open>The groups of a level\<close>

text \<open>
  The groups that the iteration of a level runs through: the groups of
  \<^verbatim>\<open>groupby\<close> on the frame without the rows that \<^verbatim>\<open>dropna\<close> removed, or,
  for a level without keys, the whole frame as one group with the empty key tuple.
\<close>

definition level_groups ::
  "dataframe \<Rightarrow> colname list \<Rightarrow> (string option list \<times> sales_row list) list" where
  "level_groups frame group_by_cols =
     (if group_by_cols \<noteq> [] then
        (case dropna frame group_by_cols of
           Inl e \<Rightarrow> []
         | Inr current_df \<Rightarrow> groupby current_df group_by_cols)
      else [([], rows frame)])"

subsection \<open>A stand-in forecaster and sample inputs\<close>

text \<open>
  A stand-in for the library, used to run the script on concrete inputs. It refuses a
  history with fewer than two distinct dates, answers for the distinct dates of the history
  followed by the next \<open>periods\<close> month starts, and predicts 0 everywhere.
\<close>

definition next_month :: "date \<Rightarrow> date" where
  "next_month d =
     (if 12 \<le> month d then \<lparr>year = year d + 1, month = 1, day = 1\<rparr>
      else \<lparr>year = year d, month = month d + 1, day = 1\<rparr>)"

fun month_starts_after :: "date \<Rightarrow> nat \<Rightarrow> date list" where
  "month_starts_after d 0 = []"
| "month_starts_after d (Suc n) = next_month d # month_starts_after (next_month d) n"

definition stub_dates :: "point list \<Rightarrow> nat \<Rightarrow> date list" where
  "stub_dates history periods =
     (case rev history of
        [] \<Rightarrow> []
      | p # _ \<Rightarrow> remdups (map fst history) @ month_starts_after (fst p) periods)"

definition stub_prophet :: "(point list) prophet" where
  "stub_prophet =
     \<lparr>fit = (\<lambda>ps. if length (remdups (map fst ps)) < 2
                  then Inl (ProphetError ''degenerate history'') else Inr ps),
      make_future_dataframe = (\<lambda>history periods f. stub_dates history periods),
      predict = (\<lambda>history future.
                   Inr (map (\<lambda>d. \<lparr>p_ds = d, yhat = 0, yhat_lower = 0, yhat_upper = 0\<rparr>) future))\<rparr>"

definition mk_date :: "nat \<Rightarrow> nat \<Rightarrow> nat \<Rightarrow> date" where
  "mk_date yr mo dy = \<lparr>year = yr, month = mo, day = dy\<rparr>"

definition mk_row :: "date \<Rightarrow> real option \<Rightarrow> (colname \<times> string) list \<Rightarrow> sales_row" where
  "mk_row d v cs = \<lparr>ds = d, y_value = v, attrs = cs\<rparr>"

definition key_columns :: "colname list" where
  "key_columns = [''BCode'', ''ProductCode'', ''PSRCode'', ''CustomerName'']"

text \<open>A git that succeeds and reports the output file as changed, and no write error.\<close>

definition good_env :: env where
  "good_env =
     \<lparr>write_error = None,
      git = (\<lambda>argv. if argv = [''git'', ''status'', ''--porcelain'']
                     then Completed ''M  output/sales_forecast.csv'' else Completed []),
      now = ''2024-01-01 00:00:00''\<rparr>"

text \<open>A git without a remote: everything succeeds but the push.\<close>

definition no_remote_env :: env where
  "no_remote_env =
     \<lparr>write_error = None,
      git = (\<lambda>argv. if argv = [''git'', ''status'', ''--porcelain'']
                     then Completed ''M  output/sales_forecast.csv''
                     else if argv = [''git'', ''push'']
                     then CalledProcessError ''fatal: No configured push destination.'' []
                     else Completed []),
      now = ''2024-01-01 00:00:00''\<rparr>"

text \<open>A table without records.\<close>

definition empty_sales :: dataframe where
  "empty_sales = \<lparr>columns = key_columns, rows = []\<rparr>"

text \<open>
  Two business codes with two records each; the two records of \<open>B\<close> have the same date,
  which the stand-in forecaster refuses.
\<close>

definition rows_A :: "sales_row list" where
  "rows_A = [mk_row (mk_date 2023 1 1) (Some 1) [(''BCode'', ''A'')],
             mk_row (mk_date 2023 2 1) (Some 2) [(''BCode'', ''A'')]]"

definition rows_B :: "sales_row list" where
  "rows_B = [mk_row (mk_date 2023 1 1) (Some 3) [(''BCode'', ''B'')],
             mk_row (mk_date 2023 1 1) (Some 4) [(''BCode'', ''B'')]]"

definition sales_AB :: dataframe where
  "sales_AB = \<lparr>columns = key_columns, rows = rows_A @ rows_B\<rparr>"

text \<open>One record only: no level has a group of two.\<close>

definition sales_single :: dataframe where
  "sales_single = \<lparr>columns = key_columns,
      rows = [mk_row (mk_date 2023 1 1) (Some 1) [(''BCode'', ''A'')]]\<rparr>"

text \<open>The two records of \<open>A\<close> alone, and with a single record of \<open>B\<close>.\<close>

definition sales_A :: dataframe where
  "sales_A = \<lparr>columns = key_columns, rows = rows_A\<rparr>"


text \<open>Two records, the second without a value.\<close>

definition sales_null_value :: dataframe where
  "sales_null_value = \<lparr>columns = key_columns,
      rows = [mk_row (mk_date 2023 1 1) (Some 1) [], mk_row (mk_date 2023 2 1) None []]\<rparr>"

text \<open>
  The frame that the stand-in forecaster and the merge yield: a date and the merged
  \<^verbatim>\<open>Actual\<close> per row, with the level name and the key columns.
\<close>

definition stub_frame ::
  "string \<Rightarrow> (colname \<times> string option) list \<Rightarrow> (date \<times> real option) list \<Rightarrow> fc_row list" where
  "stub_frame n kvs das =
     map (\<lambda>da. \<lparr>f_ds = fst da, f_yhat = 0, f_yhat_lower = 0, f_yhat_upper = 0,
                 ForecastLevel = n, key_cols = kvs, Actual = snd da\<rparr>) das"

definition forecast_A :: "(date \<times> real option) list" where
  "forecast_A =
     [(mk_date 2023 1 1, Some 1), (mk_date 2023 2 1, Some 2), (mk_date 2023 3 1, None),
      (mk_date 2023 4 1, None), (mk_date 2023 5 1, None)]"

definition frames_A :: "fc_row list list" where
  "frames_A =
     [stub_frame ''Overall'' [] forecast_A,
      stub_frame ''By_BCode'' [(''BCode'', Some ''A'')] forecast_A]"

definition table_A :: table where
  "table_A =
     \<lparr>header = [''Date'', ''ForecastLevel'', ''BCode'', ''CustomerName'', ''PSRCode'',
                ''ProductCode'', ''Actual'', ''Forecast'', ''Forecast_Low'', ''Forecast_High''],
      body =
        [[Str ''2023-01-01'', Str ''Overall'', Null, Null, Null, Null, Num 1, Num 0, Num 0, Num 0],
         [Str ''2023-02-01'', Str ''Overall'', Null, Null, Null, Null, Num 2, Num 0, Num 0, Num 0],
         [Str ''2023-03-01'', Str ''Overall'', Null, Null, Null, Null, Null, Num 0, Num 0, Num 0],
         [Str ''2023-04-01'', Str ''Overall'', Null, Null, Null, Null, Null, Num 0, Num 0, Num 0],
         [Str ''2023-05-01'', Str ''Overall'', Null, Null, Null, Null, Null, Num 0, Num 0, Num 0],
         [Str ''2023-01-01'', Str ''By_BCode'', Str ''A'', Null, Null, Null, Num 1, Num 0, Num 0,
          Num 0],
         [Str ''2023-02-01'', Str ''By_BCode'', Str ''A'', Null, Null, Null, Num 2, Num 0, Num 0,
          Num 0],
         [Str ''2023-03-01'', Str ''By_BCode'', Str ''A'', Null, Null, Null, Null, Num 0, Num 0,
          Num 0],
         [Str ''2023-04-01'', Str ''By_BCode'', Str ''A'', Null, Null, Null, Null, Num 0, Num 0,
          Num 0],
         [Str ''2023-05-01'', Str ''By_BCode'', Str ''A'', Null, Null, Null, Null, Num 0, Num 0,
          Num 0]]\<rparr>"

subsection \<open>Notions of the specification\<close>

text \<open>
  The group of the level without keys in the words of the specification: all records that
  have a non-null value.
\<close>

definition overall_group_spec :: "dataframe \<Rightarrow> sales_row list" where
  "overall_group_spec frame = filter (\<lambda>r. y_value r \<noteq> None) (rows frame)"

text \<open>The shape of an ISO calendar date: four digits, two digits and two digits, with dashes.\<close>

definition is_digit :: "char \<Rightarrow> bool" where
  "is_digit ch = (ch \<in> set ''0123456789'')"

definition iso_date :: "string \<Rightarrow> bool" where
  "iso_date s =
     (length s = 10 \<and> s ! 4 = CHR ''-'' \<and> s ! 7 = CHR ''-''
      \<and> list_all is_digit [s ! 0, s ! 1, s ! 2, s ! 3, s ! 5, s ! 6, s ! 8, s ! 9])"

text \<open>The column names that the output table has besides the key columns.\<close>

definition reserved_cols :: "colname list" where
  "reserved_cols =
     [''Date'', ''ForecastLevel'', ''Actual'', ''Forecast'', ''Forecast_Low'', ''Forecast_High'']"

subsection \<open>The output contract of the Forecaster\<close>

text \<open>
  The last input date of a group: the date of the last row of \<^verbatim>\<open>prophet_df\<close>, which
  is sorted by date.
\<close>

definition last_input_date :: "sales_row list \<Rightarrow> date" where
  "last_input_date group_df = fst (last (sort_values (select_ds_y group_df)))"

text \<open>A calendar date has a month from 1 to 12 and a day from 1 to 31.\<close>

definition valid_date :: "date \<Rightarrow> bool" where
  "valid_date d = (1 \<le> month d \<and> month d \<le> 12 \<and> 1 \<le> day d \<and> day d \<le> 31)"

text \<open>
  Modelled from the spec: the dates the Forecaster answers for. The script only passes
  \<^verbatim>\<open>periods=FORECAST_PERIOD_MONTHS\<close> and \<^verbatim>\<open>freq='MS'\<close>; what
  \<^verbatim>\<open>make_future_dataframe\<close> and \<^verbatim>\<open>predict\<close> do with them is Prophet's code, which
  is not part of the repository. In the words of the specification the answer covers the
  historical span, which is every input date of the group, and the future horizon, which is
  \<open>N\<close> additional periods beyond the last input date, a period being one calendar month
  anchored to the month start. The input is sorted by date, so that the last input date is
  the date of its last row; a date that several rows have is answered once, and no date is
  added between two input dates.
\<close>

definition forecaster_dates :: "point list \<Rightarrow> nat \<Rightarrow> date list" where
  "forecaster_dates history N =
     (if history = [] then []
      else remdups (map fst history) @ month_starts_after (fst (last history)) N)"

text \<open>
  Modelled from the spec: the Forecaster of section 4.4. Which histories it refuses and
  what it estimates is left open: \<open>refuse\<close> gives the exception of \<^verbatim>\<open>fit\<close>, if any,
  and \<open>estimate\<close> the point estimate with the lower and the upper bound for a date. It
  answers for \<open>forecaster_dates\<close>, one row per date.
\<close>

definition spec_forecaster ::
  "(point list \<Rightarrow> exn option) \<Rightarrow> (point list \<Rightarrow> date \<Rightarrow> real \<times> real \<times> real)
     \<Rightarrow> (point list) prophet" where
  "spec_forecaster refuse estimate =
     \<lparr>fit = (\<lambda>ps. case refuse ps of Some e \<Rightarrow> Inl e | None \<Rightarrow> Inr ps),
      make_future_dataframe = (\<lambda>history periods f. forecaster_dates history periods),
      predict = (\<lambda>history future.
                   Inr (map (\<lambda>d. \<lparr>p_ds = d, yhat = fst (estimate history d),
                                    yhat_lower = fst (snd (estimate history d)),
                                    yhat_upper = snd (snd (estimate history d))\<rparr>) future))\<rparr>"

text \<open>
  Months counted from year 0, and the first day of such a month; twenty-four months of
  data from January 2022, with no categorical cell populated.
\<close>

definition month_index :: "date \<Rightarrow> nat" where
  "month_index d = 12 * year d + (month d - 1)"

definition month_start :: "nat \<Rightarrow> date" where
  "month_start i = \<lparr>year = i div 12, month = i mod 12 + 1, day = 1\<rparr>"

definition sales_24_months :: dataframe where
  "sales_24_months =
     \<lparr>columns = key_columns,
      rows = map (\<lambda>j. mk_row (month_start j) (Some (real j)) []) [24264 ..< 24288]\<rparr>"

section \<open>Properties\<close>

subsection \<open>The loops\<close>

lemma forecast_groups_df:
  "forecast_groups P n c gs s = Inr s' \<Longrightarrow> df s' = df s"
  by (induction P n c gs s rule: forecast_groups.induct) (auto split: if_splits sum.splits)


lemma forecast_groups_fails:
  "(k, g) \<in> set gs \<Longrightarrow> 2 \<le> length g \<Longrightarrow> isl (forecast_group P n c k g)
     \<Longrightarrow> isl (forecast_groups P n c gs s)"
  by (induction P n c gs s rule: forecast_groups.induct) (auto split: sum.splits)

lemma forecast_group_fit_fails:
  "isl (fit P (sort_values (select_ds_y g))) \<Longrightarrow> isl (forecast_group P n c k g)"
  by (auto simp: forecast_group_def Let_def split: sum.splits)

lemma process_level_overall:
  "process_level P (n, []) s = forecast_groups P n [] [([], rows (df s))] s"
  by (simp add: process_level_def split: sum.splits)

lemma groupby_empty: "rows frame = [] \<Longrightarrow> groupby frame c = []"
  by (simp add: groupby_def)

lemma process_level_keys:
  "c \<noteq> [] \<Longrightarrow> dropna (df s) c = Inr cur \<Longrightarrow>
     process_level P (n, c) s = forecast_groups P n c (groupby cur c) s"
  by (simp add: process_level_def groupby_empty)

lemma process_level_keyerror:
  "c \<noteq> [] \<Longrightarrow> dropna (df s) c = Inl e \<Longrightarrow> process_level P (n, c) s = Inl e"
  by (simp add: process_level_def)

lemma process_level_groups:
  "process_level P (n, c) s =
     (case (if c = [] then Inr (df s) else dropna (df s) c) of
        Inl e \<Rightarrow> Inl e
      | Inr cur \<Rightarrow> forecast_groups P n c (level_groups (df s) c) s)"
  by (cases "dropna (df s) c")
     (auto simp: process_level_overall process_level_keys process_level_keyerror level_groups_def)

lemma process_level_df: "process_level P lvl s = Inr s' \<Longrightarrow> df s' = df s"
  by (cases lvl)
     (auto simp: process_level_groups split: sum.splits if_splits dest: forecast_groups_df)

lemma run_levels_df: "run_levels P levels s = Inr s' \<Longrightarrow> df s' = df s"
  by (induction levels arbitrary: s) (auto split: sum.splits dest: process_level_df)

lemma run_levels_append:
  "run_levels P (xs @ ys) s =
     (case run_levels P xs s of Inl e \<Rightarrow> Inl e | Inr s1 \<Rightarrow> run_levels P ys s1)"
  by (induction xs arbitrary: s) (auto split: sum.splits)

lemma forecast_groups_frames:
  "forecast_groups P n c gs s = Inr s' \<Longrightarrow> f \<in> set (all_forecasts s') \<Longrightarrow>
     f \<in> set (all_forecasts s) \<or> (\<exists>k g. forecast_group P n c k g = Inr f)"
  by (induction P n c gs s rule: forecast_groups.induct) (auto split: if_splits sum.splits)

lemma process_level_frames:
  "process_level P (n, c) s = Inr s' \<Longrightarrow> f \<in> set (all_forecasts s') \<Longrightarrow>
     f \<in> set (all_forecasts s) \<or> (\<exists>k g. forecast_group P n c k g = Inr f)"
  by (auto simp: process_level_groups split: sum.splits if_splits dest: forecast_groups_frames)

lemma run_levels_frames:
  "run_levels P levels s = Inr s' \<Longrightarrow> f \<in> set (all_forecasts s') \<Longrightarrow>
     f \<in> set (all_forecasts s)
     \<or> (\<exists>n c k g. (n, c) \<in> set levels \<and> forecast_group P n c k g = Inr f)"
proof (induction levels arbitrary: s)
  case Nil
  then show ?case by simp
next
  case (Cons lvl levels)
  obtain n c where lvl: "lvl = (n, c)" by (cases lvl)
  from Cons.prems(1) obtain s1 where s1: "process_level P (n, c) s = Inr s1"
    "run_levels P levels s1 = Inr s'"
    by (auto simp: lvl split: sum.splits)
  from Cons.IH[OF s1(2) Cons.prems(2)] show ?case
  proof
    assume "f \<in> set (all_forecasts s1)"
    from process_level_frames[OF s1(1) this] show ?thesis by (auto simp: lvl)
  next
    assume "\<exists>n c k g. (n, c) \<in> set levels \<and> forecast_group P n c k g = Inr f"
    then show ?thesis by auto
  qed
qed

subsection \<open>Grouping\<close>

lemma dropna_ok:
  "set c \<subseteq> set (columns frame) \<Longrightarrow>
   dropna frame c
     = Inr (frame\<lparr>rows := filter (\<lambda>r. \<forall>col\<in>set c. cell r col \<noteq> None) (rows frame)\<rparr>)"
  by (auto simp: dropna_def list_all_iff intro: filter_cong)



subsection \<open>The merge\<close>

lemma merge_row_set:
  "x \<in> set (merge_row pts r) \<longleftrightarrow>
     (f_ds r \<notin> fst ` set pts \<and> x = r\<lparr>Actual := None\<rparr>)
     \<or> (\<exists>p \<in> set pts. fst p = f_ds r \<and> x = r\<lparr>Actual := snd p\<rparr>)"
proof (cases "filter (\<lambda>p. fst p = f_ds r) pts")
  case Nil
  then have "f_ds r \<notin> fst ` set pts" by (auto simp: filter_empty_conv)
  with Nil show ?thesis by (force simp: merge_row_def)
next
  case (Cons m ms)
  then have "set (m # ms) = {p \<in> set pts. fst p = f_ds r}"
    by (metis set_filter)
  moreover from this have "f_ds r \<in> fst ` set pts" by force
  ultimately show ?thesis using Cons by (auto simp: merge_row_def)
qed

lemma merge_actuals_set:
  "x \<in> set (merge_actuals fc pts) \<longleftrightarrow>
     (\<exists>r \<in> set fc.
        (f_ds r \<notin> fst ` set pts \<and> x = r\<lparr>Actual := None\<rparr>)
        \<or> (\<exists>p \<in> set pts. fst p = f_ds r \<and> x = r\<lparr>Actual := snd p\<rparr>))"
  by (auto simp: merge_actuals_def merge_row_set)

lemma set_sort_values: "set (sort_values ps) = set ps"
  by (simp add: sort_values_def)

lemma forecast_group_rows:
  assumes "forecast_group P n c k g = Inr frame"
  obtains m fc where "fit P (sort_values (select_ds_y g)) = Inr m"
    "predict P m (make_future_dataframe P m FORECAST_PERIOD_MONTHS MS) = Inr fc"
    "frame = merge_actuals (map (tag n (zip c k)) fc) (sort_values (select_ds_y g))"
  using assms by (auto simp: forecast_group_def Let_def split: sum.splits)

lemma forecast_group_tagged:
  "forecast_group P n c k g = Inr f \<Longrightarrow> r \<in> set f \<Longrightarrow>
     ForecastLevel r = n \<and> key_cols r = zip c k"
  by (erule forecast_group_rows) (auto simp: merge_actuals_set tag_def)

subsection \<open>The table\<close>

lemma map_of_zip_map:
  "map_of (zip xs (map f xs)) x = (if x \<in> set xs then Some (f x) else None)"
  by (induction xs) auto

lemma digit_is_digit: "is_digit (digit n)"
proof -
  have "n mod 10 < length ''0123456789''" by simp
  then have "''0123456789'' ! (n mod 10) \<in> set ''0123456789''" by (rule nth_mem)
  then show ?thesis by (simp only: is_digit_def digit_def)
qed

lemma iso_date_strftime: "iso_date (strftime d)"
  by (simp add: iso_date_def strftime_def digit_is_digit)

lemma all_key_cols_flat_set:
  "set (all_key_cols_flat levels) = (\<Union>lvl \<in> set levels. set (snd lvl))"
  by (simp add: all_key_cols_flat_def)

lemma all_key_cols_flat_sorted: "sorted (all_key_cols_flat levels)"
  by (simp add: all_key_cols_flat_def)

lemma all_key_cols_flat_distinct: "distinct (all_key_cols_flat levels)"
  by (simp add: all_key_cols_flat_def)

lemma row_cells_Date: "map_of (row_cells r) ''Date'' = Some (Str (strftime (f_ds r)))"
  by (simp add: row_cells_def)

lemma row_cells_ForecastLevel:
  "map_of (row_cells r) ''ForecastLevel'' = Some (Str (ForecastLevel r))"
  by (simp add: row_cells_def)

lemma row_cells_other:
  "col \<notin> set reserved_cols \<Longrightarrow> col \<notin> fst ` set (key_cols r) \<Longrightarrow>
     map_of (row_cells r) col = None"
  by (auto simp: row_cells_def reserved_cols_def map_of_eq_None_iff image_iff)

subsection \<open>The loops, continued\<close>

lemma process_level_fails:
  assumes "(k, g) \<in> set (level_groups (df s) c)" "2 \<le> length g"
    "isl (forecast_group P n c k g)"
  shows "isl (process_level P (n, c) s)"
  using assms forecast_groups_fails[OF assms(1,2,3)]
  by (auto simp: process_level_groups split: sum.splits)

lemma run_levels_fails:
  assumes "(n, c) \<in> set levels" "(k, g) \<in> set (level_groups (df s) c)" "2 \<le> length g"
    "isl (forecast_group P n c k g)"
  shows "isl (run_levels P levels s)"
  using assms
proof (induction levels arbitrary: s)
  case Nil
  then show ?case by simp
next
  case (Cons lvl levels)
  show ?case
  proof (cases "process_level P lvl s")
    case (Inl e)
    then show ?thesis by simp
  next
    case (Inr s1)
    then have d: "df s1 = df s" by (rule process_level_df)
    have "lvl \<noteq> (n, c)"
      using process_level_fails[of k g s c P n] Cons.prems Inr by auto
    with Cons.prems have "(n, c) \<in> set levels" by auto
    with Cons.IH[of s1] Cons.prems d Inr show ?thesis by simp
  qed
qed

subsection \<open>The outcomes of the script\<close>

lemma main_load_error:
  "main P E levels (Inl e) = \<lparr>output_file = None, report = Script_Failed e, exit_status = 0\<rparr>"
  by (simp add: main_def script_body_def)

lemma main_loop_error:
  "run_levels P levels \<lparr>df = frame, all_forecasts = []\<rparr> = Inl e \<Longrightarrow>
   main P E levels (Inr frame) = \<lparr>output_file = None, report = Script_Failed e, exit_status = 0\<rparr>"
  by (simp add: main_def script_body_def)

lemma main_no_forecasts:
  "run_levels P levels \<lparr>df = frame, all_forecasts = []\<rparr> = Inr s \<Longrightarrow> all_forecasts s = [] \<Longrightarrow>
   main P E levels (Inr frame) =
     \<lparr>output_file = None,
      report = Script_Failed (ValueError
        ''No forecasts were generated. Check input data and FORECAST_LEVELS configuration.''),
      exit_status = 0\<rparr>"
  by (simp add: main_def script_body_def)

lemma main_write_error:
  "run_levels P levels \<lparr>df = frame, all_forecasts = []\<rparr> = Inr s \<Longrightarrow> all_forecasts s \<noteq> [] \<Longrightarrow>
   write_error E = Some e \<Longrightarrow>
   main P E levels (Inr frame) = \<lparr>output_file = None, report = Script_Failed e, exit_status = 0\<rparr>"
  by (simp add: main_def script_body_def)

lemma main_written:
  "run_levels P levels \<lparr>df = frame, all_forecasts = []\<rparr> = Inr s \<Longrightarrow> all_forecasts s \<noteq> [] \<Longrightarrow>
   write_error E = None \<Longrightarrow>
   main P E levels (Inr frame) =
     \<lparr>output_file = Some (final_df levels (all_forecasts s)),
      report = (case publish E of Inl e \<Rightarrow> Script_Failed e | Inr p \<Rightarrow> Finished p),
      exit_status = 0\<rparr>"
  by (simp add: main_def script_body_def split: sum.splits)

lemma main_output_cases:
  assumes "output_file (main P E levels loaded) = Some t"
  obtains frame s where "loaded = Inr frame"
    "run_levels P levels \<lparr>df = frame, all_forecasts = []\<rparr> = Inr s"
    "all_forecasts s \<noteq> []" "write_error E = None" "t = final_df levels (all_forecasts s)"
  using assms
  by (auto simp: main_def script_body_def split: sum.splits if_splits option.splits prod.splits)

lemma publish_cases:
  assumes "\<forall>argv e. git E argv \<noteq> OtherProcError e"
  shows "\<exists>p. publish E = Inr p \<and>
     (p = Pushed \<longrightarrow>
        (\<exists>o1 o2 o3 o4. git E [''git'', ''add'', OUTPUT_CSV] = Completed o1
          \<and> git E [''git'', ''status'', ''--porcelain''] = Completed o2
          \<and> git E [''git'', ''commit'', ''-m'', ''Auto-update sales forecast: '' @ now E]
              = Completed o3
          \<and> git E [''git'', ''push''] = Completed o4)) \<and>
     (p = No_Changes \<longrightarrow>
        (\<exists>o1 o2. git E [''git'', ''add'', OUTPUT_CSV] = Completed o1
          \<and> git E [''git'', ''status'', ''--porcelain''] = Completed o2
          \<and> \<not> str_in (normalize_path OUTPUT_CSV) (normalize_path o2))) \<and>
     (p = Git_Not_Found \<longrightarrow> (\<exists>argv. git E argv = FileNotFoundError)) \<and>
     (\<forall>err out. p = Git_Error err out \<longrightarrow> (\<exists>argv. git E argv = CalledProcessError err out))"
  using assms
  apply (simp add: publish_def subprocess_run_def Let_def split: proc.splits)
  apply (intro conjI impI allI)
  apply auto
  done

subsection \<open>Running the stand-in forecaster\<close>

lemma fit_stub:
  "fit stub_prophet ps =
     (if length (remdups (map fst ps)) < 2 then Inl (ProphetError ''degenerate history'')
      else Inr ps)"
  by (simp add: stub_prophet_def)

lemma forecast_group_stub:
  "forecast_group stub_prophet n c k g =
     (let ps = sort_values (select_ds_y g) in
      if length (remdups (map fst ps)) < 2 then Inl (ProphetError ''degenerate history'')
      else Inr (merge_actuals
                  (map (\<lambda>d. tag n (zip c k) \<lparr>p_ds = d, yhat = 0, yhat_lower = 0, yhat_upper = 0\<rparr>)
                     (stub_dates ps FORECAST_PERIOD_MONTHS)) ps))"
  by (simp add: forecast_group_def stub_prophet_def Let_def comp_def)

lemma level_groups_Nil: "level_groups frame [] = [([], rows frame)]"
  by (simp add: level_groups_def)

lemma sorted_A:
  "sort_values (select_ds_y rows_A) = [(mk_date 2023 1 1, Some 1), (mk_date 2023 2 1, Some 2)]"
  by (simp add: sort_values_def select_ds_y_def rows_A_def mk_row_def mk_date_def date_key_def)

lemma sorted_B:
  "sort_values (select_ds_y rows_B) = [(mk_date 2023 1 1, Some 3), (mk_date 2023 1 1, Some 4)]"
  by (simp add: sort_values_def select_ds_y_def rows_B_def mk_row_def mk_date_def date_key_def)

lemma sorted_AB:
  "sort_values (select_ds_y (rows_A @ rows_B)) =
     [(mk_date 2023 1 1, Some 1), (mk_date 2023 1 1, Some 3), (mk_date 2023 1 1, Some 4),
      (mk_date 2023 2 1, Some 2)]"
  by (simp add: sort_values_def select_ds_y_def rows_A_def rows_B_def mk_row_def mk_date_def
      date_key_def)

lemma fit_B:
  "fit stub_prophet (sort_values (select_ds_y rows_B)) = Inl (ProphetError ''degenerate history'')"
  by (simp add: fit_stub sorted_B)

lemma group_A_ok:
  "\<not> isl (forecast_group stub_prophet ''By_BCode'' [''BCode''] [Some ''A''] rows_A)"
  by (simp add: forecast_group_stub sorted_A mk_date_def Let_def)

lemma overall_AB_ok:
  "\<not> isl (forecast_group stub_prophet ''Overall'' [] [] (rows sales_AB))"
  by (simp add: forecast_group_stub sales_AB_def sorted_AB mk_date_def Let_def)

lemma groups_AB:
  "level_groups sales_AB [''BCode''] = [([Some ''A''], rows_A), ([Some ''B''], rows_B)]"
  by (simp add: level_groups_def dropna_def sales_AB_def key_columns_def cell_def rows_A_def
      rows_B_def mk_row_def groupby_def group_key_def)

lemma run_AB:
  "run_levels stub_prophet FORECAST_LEVELS \<lparr>df = sales_AB, all_forecasts = []\<rparr>
     = Inl (ProphetError ''degenerate history'')"
proof -
  obtain f0 where f0: "forecast_group stub_prophet ''Overall'' [] [] (rows sales_AB) = Inr f0"
    using overall_AB_ok
    by (cases "forecast_group stub_prophet ''Overall'' [] [] (rows sales_AB)") auto
  obtain fA where
    fA: "forecast_group stub_prophet ''By_BCode'' [''BCode''] [Some ''A''] rows_A = Inr fA"
    using group_A_ok
    by (cases "forecast_group stub_prophet ''By_BCode'' [''BCode''] [Some ''A''] rows_A") auto
  have fB: "forecast_group stub_prophet ''By_BCode'' [''BCode''] [Some ''B''] rows_B
      = Inl (ProphetError ''degenerate history'')"
    by (simp add: forecast_group_stub sorted_B mk_date_def Let_def)
  have l: "length (rows sales_AB) = 4" "length rows_A = 2" "length rows_B = 2"
    by (simp_all add: sales_AB_def rows_A_def rows_B_def)
  have k: "''BCode'' \<in> set (columns sales_AB)"
    by (simp add: sales_AB_def key_columns_def)
  show ?thesis
    by (simp add: FORECAST_LEVELS_def process_level_groups level_groups_Nil groups_AB f0 fA fB l
        dropna_def k)
qed

lemma run_empty:
  "run_levels P FORECAST_LEVELS \<lparr>df = empty_sales, all_forecasts = []\<rparr>
     = Inr \<lparr>df = empty_sales, all_forecasts = []\<rparr>"
  by (simp add: FORECAST_LEVELS_def process_level_def dropna_def empty_sales_def key_columns_def)

lemma run_single:
  "run_levels P FORECAST_LEVELS \<lparr>df = sales_single, all_forecasts = []\<rparr>
     = Inr \<lparr>df = sales_single, all_forecasts = []\<rparr>"
  by (simp add: FORECAST_LEVELS_def process_level_def dropna_def sales_single_def key_columns_def
      cell_def mk_row_def groupby_def group_key_def)

lemma groups_A: "level_groups sales_A [''BCode''] = [([Some ''A''], rows_A)]"
  by (simp add: level_groups_def dropna_def sales_A_def key_columns_def cell_def rows_A_def
      mk_row_def groupby_def group_key_def)


lemma frame_A: "forecast_group stub_prophet n c k rows_A = Inr (stub_frame n (zip c k) forecast_A)"
  by (simp add: forecast_group_stub sorted_A Let_def stub_dates_def FORECAST_PERIOD_MONTHS_def
      eval_nat_numeral next_month_def mk_date_def merge_actuals_def merge_row_def tag_def
      stub_frame_def forecast_A_def)

lemma run_A:
  "run_levels stub_prophet FORECAST_LEVELS \<lparr>df = sales_A, all_forecasts = []\<rparr>
     = Inr \<lparr>df = sales_A, all_forecasts = frames_A\<rparr>"
proof -
  have l: "length rows_A = 2" by (simp add: rows_A_def)
  have r: "rows sales_A = rows_A" by (simp add: sales_A_def)
  have g2: "level_groups sales_A [''BCode'', ''ProductCode''] = []"
    "level_groups sales_A [''BCode'', ''PSRCode''] = []"
    "level_groups sales_A [''BCode'', ''CustomerName''] = []"
    by (simp_all add: level_groups_def dropna_def sales_A_def key_columns_def cell_def rows_A_def
      mk_row_def groupby_def group_key_def)
  have k: "set (columns sales_A) = set key_columns" by (simp add: sales_A_def)
  show ?thesis
    by (simp add: FORECAST_LEVELS_def process_level_groups level_groups_Nil groups_A g2 frame_A
        l r dropna_def k key_columns_def frames_A_def)
qed

lemma strftime_eval:
  "strftime (mk_date 2023 1 1) = ''2023-01-01''"
  "strftime (mk_date 2023 2 1) = ''2023-02-01''"
  "strftime (mk_date 2023 3 1) = ''2023-03-01''"
  "strftime (mk_date 2023 4 1) = ''2023-04-01''"
  "strftime (mk_date 2023 5 1) = ''2023-05-01''"
  by (simp_all add: strftime_def digit_def mk_date_def)

lemma keys_default:
  "all_key_cols_flat FORECAST_LEVELS = [''BCode'', ''CustomerName'', ''PSRCode'', ''ProductCode'']"
  by (simp add: all_key_cols_flat_def FORECAST_LEVELS_def)

lemma final_df_A: "final_df FORECAST_LEVELS frames_A = table_A"
  by (simp add: final_df_def final_output_cols_def keys_default stub_frame_def select_cols_def
      row_cells_def strftime_eval opt_str_def opt_num_def frames_A_def forecast_A_def table_A_def
      del: One_nat_def)

lemma publish_good: "publish good_env = Inr Pushed"
  by (simp add: publish_def subprocess_run_def good_env_def OUTPUT_CSV_def normalize_path_def
      Let_def)

lemma publish_no_remote:
  "publish no_remote_env = Inr (Git_Error ''fatal: No configured push destination.'' [])"
  by (simp add: publish_def subprocess_run_def no_remote_env_def OUTPUT_CSV_def
      normalize_path_def Let_def)

lemma frames_A_nonempty: "frames_A \<noteq> []"
  by (simp add: frames_A_def)

lemma main_A:
  "main stub_prophet good_env FORECAST_LEVELS (Inr sales_A)
     = \<lparr>output_file = Some table_A, report = Finished Pushed, exit_status = 0\<rparr>"
proof -
  have w: "write_error good_env = None" by (simp add: good_env_def)
  have "all_forecasts \<lparr>df = sales_A, all_forecasts = frames_A\<rparr> \<noteq> []"
    by (simp add: frames_A_nonempty)
  from main_written[OF run_A this w] show ?thesis
    by (simp add: final_df_A publish_good)
qed

lemma main_A_no_remote:
  "main stub_prophet no_remote_env FORECAST_LEVELS (Inr sales_A)
     = \<lparr>output_file = Some table_A,
        report = Finished (Git_Error ''fatal: No configured push destination.'' []),
        exit_status = 0\<rparr>"
proof -
  have w: "write_error no_remote_env = None" by (simp add: no_remote_env_def)
  have "all_forecasts \<lparr>df = sales_A, all_forecasts = frames_A\<rparr> \<noteq> []"
    by (simp add: frames_A_nonempty)
  from main_written[OF run_A this w] show ?thesis
    by (simp add: final_df_A publish_no_remote)
qed

text \<open>
  The written table depends on the input, the configuration and the answers of the
  forecaster only: the clock and git do not reach it.
\<close>

lemma output_file_independent_of_git_and_clock:
  "write_error E1 = write_error E2 \<Longrightarrow>
     output_file (main P E1 levels loaded) = output_file (main P E2 levels loaded)"
  by (auto simp: main_def script_body_def split: sum.splits option.splits prod.splits)

subsection \<open>Months, and a table without categorical values\<close>

lemma month_index_start: "month_index (month_start j) = j"
  by (simp add: month_index_def month_start_def)

lemma month_start_inj: "inj month_start"
  by (rule inj_on_inverseI[where g = month_index]) (simp add: month_index_start)

lemma month_key_mono:
  fixes j j' :: nat
  assumes "j < j'"
  shows "j div 12 * 10000 + (j mod 12 + 1) * 100 + 1
           < j' div 12 * 10000 + (j' mod 12 + 1) * 100 + 1"
proof -
  define q r q' r' where "q = j div 12" and "r = j mod 12" and "q' = j' div 12"
    and "r' = j' mod 12"
  have j: "j = 12 * q + r" "j' = 12 * q' + r'" by (simp_all add: q_def r_def q'_def r'_def)
  have b: "r < 12" "r' < 12" by (simp_all add: r_def r'_def)
  have "q \<le> q'"
  proof (rule ccontr)
    assume "\<not> q \<le> q'"
    then have "q' + 1 \<le> q" by simp
    with assms j b show False by linarith
  qed
  then consider "q = q'" | "q + 1 \<le> q'" by linarith
  then have "10000 * q + 100 * r < 10000 * q' + 100 * r'"
  proof cases
    case 1
    with assms j show ?thesis by simp
  next
    case 2
    then have "10000 * q + 10000 \<le> 10000 * q'" by simp
    moreover have "100 * r < 1200" using b by simp
    ultimately show ?thesis by linarith
  qed
  then have "q * 10000 + (r + 1) * 100 + 1 < q' * 10000 + (r' + 1) * 100 + 1"
    by (simp add: algebra_simps)
  then show ?thesis by (simp only: q_def r_def q'_def r'_def)
qed

lemma date_key_month_start:
  "date_key (month_start j) = j div 12 * 10000 + (j mod 12 + 1) * 100 + 1"
  by (simp add: date_key_def month_start_def)

lemma date_key_month_start_mono:
  "j < j' \<Longrightarrow> date_key (month_start j) < date_key (month_start j')"
  unfolding date_key_month_start by (rule month_key_mono)

lemma sorted_key_last:
  "sorted (map f xs) \<Longrightarrow> x \<in> set xs \<Longrightarrow> f x \<le> f (last xs)"
  by (induction xs) (auto split: if_splits)

lemma filter_distinct_key:
  "distinct (map fst pts) \<Longrightarrow>
     filter (\<lambda>p. fst p = d) pts = (case map_of pts d of None \<Rightarrow> [] | Some v \<Rightarrow> [(d, v)])"
proof (induction pts)
  case Nil
  then show ?case by simp
next
  case (Cons p pts)
  obtain a b where p: "p = (a, b)" by (cases p)
  show ?case
  proof (cases "a = d")
    case True
    with Cons.prems p have "d \<notin> fst ` set pts" by auto
    then have "filter (\<lambda>p. fst p = d) pts = []" by (auto simp: filter_empty_conv)
    with True p show ?thesis by simp
  next
    case False
    with Cons p show ?thesis by simp
  qed
qed

lemma merge_row_distinct:
  "distinct (map fst pts) \<Longrightarrow>
     merge_row pts r = [r\<lparr>Actual := (case map_of pts (f_ds r) of None \<Rightarrow> None | Some v \<Rightarrow> v)\<rparr>]"
  by (simp add: merge_row_def filter_distinct_key split: option.splits)

lemma merge_actuals_distinct:
  "distinct (map fst pts) \<Longrightarrow>
     merge_actuals fc pts
       = map (\<lambda>r. r\<lparr>Actual := (case map_of pts (f_ds r) of None \<Rightarrow> None | Some v \<Rightarrow> v)\<rparr>) fc"
  by (induction fc) (simp_all add: merge_actuals_def merge_row_distinct)

lemma process_level_unpopulated:
  assumes "c \<noteq> []" "set c \<subseteq> set (columns (df s))" "\<forall>r \<in> set (rows (df s)). attrs r = []"
  shows "process_level P (n, c) s = Inr s"
proof -
  from assms(1) obtain col where col: "col \<in> set c" by (cases c) auto
  have "filter (\<lambda>r. \<forall>col\<in>set c. cell r col \<noteq> None) (rows (df s)) = []"
    using assms(3) col by (auto simp: filter_empty_conv cell_def)
  with dropna_ok[OF assms(2)] assms(1) show ?thesis
    by (simp add: process_level_def)
qed

lemma run_levels_unpopulated:
  assumes "\<forall>lvl \<in> set others. snd lvl \<noteq> [] \<and> set (snd lvl) \<subseteq> set (columns (df s))"
    "\<forall>r \<in> set (rows (df s)). attrs r = []"
  shows "run_levels P others s = Inr s"
  using assms
proof (induction others)
  case Nil
  then show ?case by simp
next
  case (Cons lvl others)
  obtain n c where lvl: "lvl = (n, c)" by (cases lvl)
  from Cons.prems lvl have "process_level P (n, c) s = Inr s"
    by (intro process_level_unpopulated) auto
  with Cons lvl show ?case by simp
qed

lemma sort_values_sorted: "sorted (map (\<lambda>p. date_key (fst p)) (sort_values ps))"
  by (simp add: sort_values_def)

lemma sort_values_dates: "mset (map fst (sort_values ps)) = mset (map fst ps)"
  by (simp add: sort_values_def)

lemma select_ds_y_dates: "map fst (select_ds_y rs) = map ds rs"
  by (simp add: select_ds_y_def comp_def)

lemma cell_at_final:
  "cell_at (final_df levels frames) (select_cols (final_output_cols levels) r) col =
     (if col \<in> set (final_output_cols levels)
      then Some (case map_of (row_cells r) col of None \<Rightarrow> Null | Some v \<Rightarrow> v)
      else None)"
  unfolding cell_at_def final_df_def select_cols_def by (simp add: map_of_zip_map)

lemma cell_at_Date:
  "cell_at (final_df levels frames) (select_cols (final_output_cols levels) r) ''Date''
     = Some (Str (strftime (f_ds r)))"
proof -
  have "''Date'' \<in> set (final_output_cols levels)" by (simp add: final_output_cols_def)
  then show ?thesis by (simp add: cell_at_final row_cells_Date)
qed

lemma cell_at_ForecastLevel:
  "cell_at (final_df levels frames) (select_cols (final_output_cols levels) r) ''ForecastLevel''
     = Some (Str (ForecastLevel r))"
proof -
  have "''ForecastLevel'' \<in> set (final_output_cols levels)"
    by (simp add: final_output_cols_def)
  then show ?thesis by (simp add: cell_at_final row_cells_ForecastLevel)
qed

lemma cell_at_key_null:
  assumes "col \<in> set (all_key_cols_flat levels)" "col \<notin> set reserved_cols"
    "col \<notin> fst ` set (key_cols r)"
  shows "cell_at (final_df levels frames) (select_cols (final_output_cols levels) r) col
     = Some Null"
proof -
  have "col \<in> set (final_output_cols levels)"
    using assms(1) by (simp add: final_output_cols_def)
  moreover have "map_of (row_cells r) col = None"
    using assms(2,3) by (rule row_cells_other)
  ultimately show ?thesis by (simp add: cell_at_final)
qed

lemma rows_24_dates: "map ds (rows sales_24_months) = map month_start [24264 ..< 24288]"
  by (simp add: sales_24_months_def mk_row_def comp_def del: upt_Suc)

subsection \<open>The Forecaster of the specification\<close>

lemma month_starts_after_3:
  "month_starts_after d 3
     = [next_month d, next_month (next_month d), next_month (next_month (next_month d))]"
  by (simp add: numeral_3_eq_3)

lemma length_month_starts_after: "length (month_starts_after d n) = n"
  by (induction n arbitrary: d) simp_all

lemma next_month_day: "day (next_month d) = 1"
  by (simp add: next_month_def)

lemma next_month_valid: "valid_date (next_month d)"
  by (simp add: next_month_def valid_date_def)

lemma next_month_later: "valid_date d \<Longrightarrow> date_key d < date_key (next_month d)"
  by (simp add: next_month_def valid_date_def date_key_def)

lemma merge_actuals_dates: "f_ds ` set (merge_actuals fc pts) = f_ds ` set fc"
proof (intro set_eqI iffI)
  fix d assume "d \<in> f_ds ` set (merge_actuals fc pts)"
  then obtain x where "x \<in> set (merge_actuals fc pts)" "d = f_ds x" by auto
  then show "d \<in> f_ds ` set fc" by (auto simp: merge_actuals_set)
next
  fix d assume "d \<in> f_ds ` set fc"
  then obtain r where r: "r \<in> set fc" "d = f_ds r" by auto
  show "d \<in> f_ds ` set (merge_actuals fc pts)"
  proof (cases "f_ds r \<in> fst ` set pts")
    case False
    with r(1) have "r\<lparr>Actual := None\<rparr> \<in> set (merge_actuals fc pts)"
      unfolding merge_actuals_set by blast
    then have "f_ds (r\<lparr>Actual := None\<rparr>) \<in> f_ds ` set (merge_actuals fc pts)" by (rule imageI)
    with r(2) show ?thesis by simp
  next
    case True
    then obtain p where p: "p \<in> set pts" "fst p = f_ds r" by auto
    with r(1) have "r\<lparr>Actual := snd p\<rparr> \<in> set (merge_actuals fc pts)"
      unfolding merge_actuals_set by blast
    then have "f_ds (r\<lparr>Actual := snd p\<rparr>) \<in> f_ds ` set (merge_actuals fc pts)" by (rule imageI)
    with r(2) show ?thesis by simp
  qed
qed

lemma forecast_group_spec:
  assumes "forecast_group (spec_forecaster refuse estimate) n c k g = Inr fr"
  shows "fr = merge_actuals
            (map (tag n (zip c k))
               (map (\<lambda>d. \<lparr>p_ds = d,
                          yhat = fst (estimate (sort_values (select_ds_y g)) d),
                          yhat_lower = fst (snd (estimate (sort_values (select_ds_y g)) d)),
                          yhat_upper = snd (snd (estimate (sort_values (select_ds_y g)) d))\<rparr>)
                  (forecaster_dates (sort_values (select_ds_y g)) FORECAST_PERIOD_MONTHS)))
            (sort_values (select_ds_y g))"
  using assms
  by (auto simp: forecast_group_def Let_def spec_forecaster_def split: sum.splits option.splits)

lemma forecast_group_spec_accepts:
  assumes "refuse (sort_values (select_ds_y g)) = None"
  shows "forecast_group (spec_forecaster refuse estimate) n c k g
     = Inr (merge_actuals
            (map (tag n (zip c k))
               (map (\<lambda>d. \<lparr>p_ds = d,
                          yhat = fst (estimate (sort_values (select_ds_y g)) d),
                          yhat_lower = fst (snd (estimate (sort_values (select_ds_y g)) d)),
                          yhat_upper = snd (snd (estimate (sort_values (select_ds_y g)) d))\<rparr>)
                  (forecaster_dates (sort_values (select_ds_y g)) FORECAST_PERIOD_MONTHS)))
            (sort_values (select_ds_y g)))"
  using assms
  by (simp add: forecast_group_def Let_def spec_forecaster_def)

lemma last_input_date_mem: "g \<noteq> [] \<Longrightarrow> last_input_date g \<in> ds ` set g"
proof -
  assume g: "g \<noteq> []"
  let ?pts = "sort_values (select_ds_y g)"
  have "length ?pts = length g" by (simp add: sort_values_def select_ds_y_def)
  with g have "?pts \<noteq> []" by auto
  then have "last ?pts \<in> set ?pts" by simp
  then have "fst (last ?pts) \<in> fst ` set (select_ds_y g)"
    unfolding set_sort_values by (rule imageI)
  then show ?thesis by (auto simp: last_input_date_def select_ds_y_def)
qed

lemma last_input_date_max:
  assumes "r \<in> set g"
  shows "date_key (ds r) \<le> date_key (last_input_date g)"
proof -
  let ?pts = "sort_values (select_ds_y g)"
  from assms have "(ds r, y_value r) \<in> set ?pts"
    unfolding set_sort_values by (auto simp: select_ds_y_def)
  from sorted_key_last[OF sort_values_sorted this] show ?thesis
    by (simp add: last_input_date_def)
qed

lemma forecaster_dates_set:
  assumes "g \<noteq> []"
  shows "set (forecaster_dates (sort_values (select_ds_y g)) N)
     = ds ` set g \<union> set (month_starts_after (last_input_date g) N)"
proof -
  let ?pts = "sort_values (select_ds_y g)"
  have "length ?pts = length g" by (simp add: sort_values_def select_ds_y_def)
  with assms have ne: "?pts \<noteq> []" by auto
  have "mset (map fst ?pts) = mset (map ds g)"
    by (simp only: sort_values_dates select_ds_y_dates)
  then have "set (map fst ?pts) = set (map ds g)" by (rule mset_eq_setD)
  then have "set (map fst ?pts) = ds ` set g" by simp
  with ne show ?thesis by (simp add: forecaster_dates_def last_input_date_def)
qed

lemma forecaster_dates_distinct:
  assumes "g \<noteq> []" "distinct (map ds g)"
  shows "forecaster_dates (sort_values (select_ds_y g)) N
     = map fst (sort_values (select_ds_y g)) @ month_starts_after (last_input_date g) N"
    and "distinct (map fst (sort_values (select_ds_y g)))"
proof -
  let ?pts = "sort_values (select_ds_y g)"
  have "length ?pts = length g" by (simp add: sort_values_def select_ds_y_def)
  with assms have ne: "?pts \<noteq> []" by auto
  have m: "mset (map fst ?pts) = mset (map ds g)"
    by (simp only: sort_values_dates select_ds_y_dates)
  show dp: "distinct (map fst ?pts)"
    using m assms(2) by (metis mset_eq_imp_distinct_iff)
  with ne show "forecaster_dates ?pts N = map fst ?pts @ month_starts_after (last_input_date g) N"
    by (simp add: forecaster_dates_def last_input_date_def distinct_remdups_id)
qed

lemma forecast_group_horizon:
  assumes g: "2 \<le> length g"
    and f: "forecast_group (spec_forecaster refuse estimate) n c k g = Inr fr"
  shows "f_ds ` set fr = ds ` set g \<union> set (month_starts_after (last_input_date g) 3)"
    and "distinct (map ds g) \<Longrightarrow>
           map f_ds fr = map fst (sort_values (select_ds_y g))
                           @ month_starts_after (last_input_date g) 3"
    and "distinct (map ds g) \<Longrightarrow> length fr = length g + 3"
proof -
  let ?pts = "sort_values (select_ds_y g)"
  let ?D = "forecaster_dates ?pts FORECAST_PERIOD_MONTHS"
  let ?fc = "map (\<lambda>d. \<lparr>p_ds = d, yhat = fst (estimate ?pts d),
                          yhat_lower = fst (snd (estimate ?pts d)),
                          yhat_upper = snd (snd (estimate ?pts d))\<rparr>) ?D"
  from g have ne: "g \<noteq> []" by auto
  have fr: "fr = merge_actuals (map (tag n (zip c k)) ?fc) ?pts"
    using f by (rule forecast_group_spec)
  have tg: "map f_ds (map (tag n (zip c k)) ?fc) = ?D"
    by (simp add: comp_def tag_def)
  have "f_ds ` set fr = set (map f_ds (map (tag n (zip c k)) ?fc))"
    unfolding fr merge_actuals_dates by (simp only: set_map)
  also have "\<dots> = set ?D" by (simp only: tg)
  also have "\<dots> = ds ` set g \<union> set (month_starts_after (last_input_date g) 3)"
    using forecaster_dates_set[OF ne] by (simp add: FORECAST_PERIOD_MONTHS_def)
  finally show "f_ds ` set fr = ds ` set g \<union> set (month_starts_after (last_input_date g) 3)" .
  {
    assume d: "distinct (map ds g)"
    note e = forecaster_dates_distinct[OF ne d]
    have "fr = map (\<lambda>r. r\<lparr>Actual := (case map_of ?pts (f_ds r) of None \<Rightarrow> None | Some v \<Rightarrow> v)\<rparr>)
                 (map (tag n (zip c k)) ?fc)"
      unfolding fr by (rule merge_actuals_distinct[OF e(2)])
    then have "map f_ds fr = map f_ds (map (tag n (zip c k)) ?fc)"
      by (simp add: comp_def)
    also have "\<dots> = ?D" by (rule tg)
    also have "\<dots> = map fst ?pts @ month_starts_after (last_input_date g) 3"
      using e(1)[of FORECAST_PERIOD_MONTHS] by (simp add: FORECAST_PERIOD_MONTHS_def)
    finally show 2: "map f_ds fr = map fst ?pts @ month_starts_after (last_input_date g) 3" .
    have "length ?pts = length g" by (simp add: sort_values_def select_ds_y_def)
    with arg_cong[OF 2, of length] show "length fr = length g + 3"
      by (simp add: length_month_starts_after)
  }
qed

lemma overall_run_spec:
  assumes l: "2 \<le> length (rows frame)"
    and d: "distinct (map ds (rows frame))"
    and u: "\<forall>r \<in> set (rows frame). attrs r = []"
    and lv: "levels = (''Overall'', []) # others"
    and ot: "\<forall>lvl \<in> set others. snd lvl \<noteq> [] \<and> set (snd lvl) \<subseteq> set (columns frame)"
    and rs: "set (all_key_cols_flat levels) \<inter> set reserved_cols = {}"
    and a: "refuse (sort_values (select_ds_y (rows frame))) = None"
    and w: "write_error E = None"
  shows "\<exists>t. output_file (main (spec_forecaster refuse estimate) E levels (Inr frame)) = Some t
          \<and> length (body t) = length (rows frame) + 3
          \<and> map (\<lambda>row. cell_at t row ''Date'') (body t)
              = map (\<lambda>d. Some (Str (strftime d)))
                  (map fst (sort_values (select_ds_y (rows frame)))
                     @ month_starts_after (last_input_date (rows frame)) 3)
          \<and> (\<forall>row \<in> set (body t).
                cell_at t row ''ForecastLevel'' = Some (Str ''Overall'')
                \<and> (\<forall>col \<in> set (all_key_cols_flat levels). cell_at t row col = Some Null))"
proof -
  let ?P = "spec_forecaster refuse estimate"
  let ?pts = "sort_values (select_ds_y (rows frame))"
  let ?D = "map fst ?pts @ month_starts_after (last_input_date (rows frame)) 3"
  obtain F where F: "forecast_group ?P ''Overall'' [] [] (rows frame) = Inr F"
    using forecast_group_spec_accepts[of refuse "rows frame", OF a] by blast
  note h = forecast_group_horizon[OF l F]
  have fds: "map f_ds F = ?D" using h(2)[OF d] .
  have lenF: "length F = length (rows frame) + 3" using h(3)[OF d] .
  let ?s1 = "\<lparr>df = frame, all_forecasts = [F]\<rparr>"
  have p1: "process_level ?P (''Overall'', []) \<lparr>df = frame, all_forecasts = []\<rparr> = Inr ?s1"
    using l by (simp add: process_level_def F)
  have o1: "\<forall>lvl \<in> set others. snd lvl \<noteq> [] \<and> set (snd lvl) \<subseteq> set (columns (df ?s1))"
    using ot by simp
  have o2: "\<forall>r \<in> set (rows (df ?s1)). attrs r = []" using u by simp
  have p2: "run_levels ?P others ?s1 = Inr ?s1"
    using o1 o2 by (rule run_levels_unpopulated)
  have run: "run_levels ?P levels \<lparr>df = frame, all_forecasts = []\<rparr> = Inr ?s1"
    unfolding lv by (simp only: run_levels.simps p1 p2 sum.case)
  let ?t = "final_df levels [F]"
  let ?cols = "final_output_cols levels"
  have out: "output_file (main ?P E levels (Inr frame)) = Some ?t"
    using main_written[OF run _ w] by simp
  have body: "body ?t = map (select_cols ?cols) F"
    by (simp add: final_df_def)
  have len: "length (body ?t) = length (rows frame) + 3"
    unfolding body using lenF by simp
  have dates: "map (\<lambda>row. cell_at ?t row ''Date'') (body ?t)
              = map (\<lambda>d. Some (Str (strftime d))) ?D"
  proof -
    have "map (\<lambda>row. cell_at ?t row ''Date'') (body ?t)
        = map (\<lambda>x. Some (Str (strftime x))) (map f_ds F)"
      unfolding body by (simp add: cell_at_Date comp_def)
    then show ?thesis unfolding fds .
  qed
  have rows: "\<forall>row \<in> set (body ?t).
                cell_at ?t row ''ForecastLevel'' = Some (Str ''Overall'')
                \<and> (\<forall>col \<in> set (all_key_cols_flat levels). cell_at ?t row col = Some Null)"
  proof
    fix row assume "row \<in> set (body ?t)"
    then obtain r where r: "r \<in> set F" "row = select_cols ?cols r"
      unfolding body by auto
    from forecast_group_tagged[OF F r(1)]
    have tg: "ForecastLevel r = ''Overall''" "key_cols r = []" by simp_all
    have 1: "cell_at ?t row ''ForecastLevel'' = Some (Str ''Overall'')"
      unfolding r(2) cell_at_ForecastLevel by (simp add: tg)
    have 2: "cell_at ?t row col = Some Null" if "col \<in> set (all_key_cols_flat levels)" for col
    proof -
      from that rs have "col \<notin> set reserved_cols" by auto
      moreover have "col \<notin> fst ` set (key_cols r)" by (simp add: tg)
      ultimately show ?thesis unfolding r(2) using that by (intro cell_at_key_null)
    qed
    from 1 2 show "cell_at ?t row ''ForecastLevel'' = Some (Str ''Overall'')
                \<and> (\<forall>col \<in> set (all_key_cols_flat levels). cell_at ?t row col = Some Null)"
      by blast
  qed
  show ?thesis
    by (rule exI[of _ ?t]) (intro conjI out len dates rows)
qed

lemma sorted_map_upt:
  fixes f :: "nat \<Rightarrow> nat"
  assumes "\<And>i j. i \<le> j \<Longrightarrow> f i \<le> f j"
  shows "sorted (map f [a ..< b])"
  by (auto simp: sorted_iff_nth_mono intro: assms)

lemma date_key_month_start_mono_le:
  "j \<le> j' \<Longrightarrow> date_key (month_start j) \<le> date_key (month_start j')"
  using date_key_month_start_mono[of j j'] by (cases "j = j'") auto

lemma pts_24:
  "sort_values (select_ds_y (rows sales_24_months))
     = map (\<lambda>j. (month_start j, Some (real j))) [24264 ..< 24288]"
proof -
  have s: "select_ds_y (rows sales_24_months)
             = map (\<lambda>j. (month_start j, Some (real j))) [24264 ..< 24288]"
    by (simp add: select_ds_y_def sales_24_months_def mk_row_def comp_def del: upt_Suc)
  have "sorted (map (\<lambda>j. date_key (month_start j)) [24264 ..< 24288])"
    by (rule sorted_map_upt) (rule date_key_month_start_mono_le)
  then have "sorted (map (\<lambda>p. date_key (fst p))
                 (map (\<lambda>j. (month_start j, Some (real j))) [24264 ..< 24288]))"
    by (simp only: map_map comp_def fst_conv)
  then show ?thesis unfolding sort_values_def s by (rule sort_key_id_if_sorted)
qed

lemma dates_24:
  "map fst (sort_values (select_ds_y (rows sales_24_months))) = map month_start [24264 ..< 24288]"
  unfolding pts_24 by (simp only: map_map comp_def fst_conv)

lemma last_24: "last_input_date (rows sales_24_months) = mk_date 2023 12 1"
proof -
  let ?f = "\<lambda>j. (month_start j, Some (real j))"
  have ne: "[24264 ..< 24288::nat] \<noteq> []" by simp
  have "(24264::nat) < 24288" by simp
  then have l: "last [24264 ..< 24288::nat] = 24288 - 1" by (rule last_upt)
  have "last (map ?f [24264 ..< 24288]) = ?f (last [24264 ..< 24288])"
    using ne by (rule last_map)
  also have "\<dots> = ?f 24287" unfolding l by simp
  finally have "fst (last (map ?f [24264 ..< 24288])) = month_start 24287"
    by (simp only: fst_conv)
  then show ?thesis
    unfolding last_input_date_def pts_24 by (simp add: month_start_def mk_date_def)
qed

section \<open>The claims\<close>

subsection \<open>C1: a failing fit\<close>

text \<open>
  C1, as the specification states it: when the fit fails for one group, only that group
  is skipped, the other groups and levels still contribute and the run is not aborted.
  The script has no handler around the fit. On \<open>sales_AB\<close> the fit fails for the group
  \<open>B\<close> of the level \<open>By_BCode\<close> only; the level \<open>Overall\<close> and the group \<open>A\<close> are
  forecast without error, and yet the run is aborted and writes nothing.
\<close>

theorem fit_failure_not_isolated:
  "isl (fit stub_prophet (sort_values (select_ds_y rows_B)))
   \<and> \<not> isl (forecast_group stub_prophet ''Overall'' [] [] (rows sales_AB))
   \<and> \<not> isl (forecast_group stub_prophet ''By_BCode'' [''BCode''] [Some ''A''] rows_A)
   \<and> main stub_prophet good_env FORECAST_LEVELS (Inr sales_AB)
       = \<lparr>output_file = None, report = Script_Failed (ProphetError ''degenerate history''),
          exit_status = 0\<rparr>"
  by (simp add: fit_B overall_AB_ok group_A_ok main_loop_error[OF run_AB])

text \<open>
  C1, amended: when the fit fails for a group with at least two records of any configured
  level, the exception reaches the handler of line 167: the run is aborted, no group of
  any level contributes, no output file is written, the failure is reported and the process
  ends with status 0.
\<close>

theorem fit_failure_aborts_run:
  assumes "(n, c) \<in> set levels" and "(k, g) \<in> set (level_groups frame c)" and "2 \<le> length g"
    and "isl (fit P (sort_values (select_ds_y g)))"
  shows "\<exists>e. main P E levels (Inr frame)
           = \<lparr>output_file = None, report = Script_Failed e, exit_status = 0\<rparr>"
proof -
  have "isl (forecast_group P n c k g)"
    using assms(4) by (rule forecast_group_fit_fails)
  with assms have "isl (run_levels P levels \<lparr>df = frame, all_forecasts = []\<rparr>)"
    by (intro run_levels_fails[of n c levels k g]) simp_all
  then obtain e where "run_levels P levels \<lparr>df = frame, all_forecasts = []\<rparr> = Inl e"
    by (cases "run_levels P levels \<lparr>df = frame, all_forecasts = []\<rparr>") auto
  then show ?thesis by (auto simp: main_loop_error)
qed

text \<open>The amended C1 on \<open>sales_AB\<close>, where the fit of the group \<open>B\<close> fails.\<close>

theorem fit_failure_aborts_run_witness:
  "(''By_BCode'', [''BCode'']) \<in> set FORECAST_LEVELS
   \<and> ([Some ''B''], rows_B) \<in> set (level_groups sales_AB [''BCode''])
   \<and> 2 \<le> length rows_B
   \<and> isl (fit stub_prophet (sort_values (select_ds_y rows_B)))
   \<and> (\<exists>e. main stub_prophet good_env FORECAST_LEVELS (Inr sales_AB)
           = \<lparr>output_file = None, report = Script_Failed e, exit_status = 0\<rparr>)"
proof -
  have a: "(''By_BCode'', [''BCode'']) \<in> set FORECAST_LEVELS"
    by (simp add: FORECAST_LEVELS_def)
  have b: "([Some ''B''], rows_B) \<in> set (level_groups sales_AB [''BCode''])"
    by (simp add: groups_AB)
  have c: "2 \<le> length rows_B" by (simp add: rows_B_def)
  have d: "isl (fit stub_prophet (sort_values (select_ds_y rows_B)))" by (simp add: fit_B)
  from fit_failure_aborts_run[OF a b c d, of good_env] a b c d show ?thesis by blast
qed

subsection \<open>C2: no forecast at all\<close>

text \<open>
  C2, as the specification states it: when no forecast was produced for any group, the run
  raises the no-forecasts error before writing, no output file is written and the process
  exits non-zero. On a table without records every level is passed over and the error is
  raised, but the handler of line 167 catches it and the process ends with status 0.
\<close>

theorem no_forecasts_exit_status_zero:
  "run_levels stub_prophet FORECAST_LEVELS \<lparr>df = empty_sales, all_forecasts = []\<rparr>
       = Inr \<lparr>df = empty_sales, all_forecasts = []\<rparr>
   \<and> output_file (main stub_prophet good_env FORECAST_LEVELS (Inr empty_sales)) = None
   \<and> exit_status (main stub_prophet good_env FORECAST_LEVELS (Inr empty_sales)) = 0"
  by (simp add: run_empty main_no_forecasts[OF run_empty])

text \<open>
  C2, amended: when, after all levels, no forecast was produced for any group, the run
  raises the no-forecasts error before writing: no output file is written, the handler of
  line 167 reports the error, and the process ends with status 0.
\<close>

theorem no_forecasts_reported_nothing_written:
  assumes "run_levels P levels \<lparr>df = frame, all_forecasts = []\<rparr> = Inr s"
    and "all_forecasts s = []"
  shows "main P E levels (Inr frame) =
     \<lparr>output_file = None,
      report = Script_Failed (ValueError
        ''No forecasts were generated. Check input data and FORECAST_LEVELS configuration.''),
      exit_status = 0\<rparr>"
  using assms by (rule main_no_forecasts)

text \<open>The amended C2 on a table with a single record.\<close>

theorem no_forecasts_reported_nothing_written_witness:
  "run_levels stub_prophet FORECAST_LEVELS \<lparr>df = sales_single, all_forecasts = []\<rparr>
       = Inr \<lparr>df = sales_single, all_forecasts = []\<rparr>
   \<and> all_forecasts \<lparr>df = sales_single, all_forecasts = []\<rparr> = []
   \<and> main stub_prophet good_env FORECAST_LEVELS (Inr sales_single) =
     \<lparr>output_file = None,
      report = Script_Failed (ValueError
        ''No forecasts were generated. Check input data and FORECAST_LEVELS configuration.''),
      exit_status = 0\<rparr>"
  using no_forecasts_reported_nothing_written[OF run_single, of stub_prophet good_env]
    run_single[of stub_prophet]
  by simp

subsection \<open>C3: the actual values\<close>

text \<open>
  C3: in the frame assembled for a group, every row carries the level name and the key
  values of the group; the \<^verbatim>\<open>Actual\<close> of a row is the value of an input record of
  the group with exactly the row's date, and null when the group has no record with that
  date; when the dates of the group are distinct it is the value of the record with that
  date; and every input record whose date is among the dates the Forecaster answered for
  appears with its value. The Forecaster is outside the repository: that its answer covers
  the input dates is its output contract, and is the hypothesis of the last part.
\<close>

theorem actuals_joined_by_exact_date:
  assumes "forecast_group P n c k g = Inr frame"
  shows "(\<forall>r \<in> set frame.
           ForecastLevel r = n \<and> key_cols r = zip c k
           \<and> (if f_ds r \<in> ds ` set g
              then \<exists>x \<in> set g. ds x = f_ds r \<and> Actual r = y_value x
              else Actual r = None))
    \<and> (distinct (map ds g) \<longrightarrow>
           (\<forall>r \<in> set frame. \<forall>x \<in> set g. ds x = f_ds r \<longrightarrow> Actual r = y_value x))
    \<and> (\<forall>m fc. fit P (sort_values (select_ds_y g)) = Inr m
           \<and> predict P m (make_future_dataframe P m FORECAST_PERIOD_MONTHS MS) = Inr fc
           \<longrightarrow> (\<forall>x \<in> set g. ds x \<in> p_ds ` set fc
                  \<longrightarrow> (\<exists>r \<in> set frame. f_ds r = ds x \<and> Actual r = y_value x)))"
proof -
  from assms obtain m fc where
    h: "fit P (sort_values (select_ds_y g)) = Inr m"
       "predict P m (make_future_dataframe P m FORECAST_PERIOD_MONTHS MS) = Inr fc"
       "frame = merge_actuals (map (tag n (zip c k)) fc) (sort_values (select_ds_y g))"
    by (rule forecast_group_rows)
  have pts: "set (sort_values (select_ds_y g)) = (\<lambda>r. (ds r, y_value r)) ` set g"
    by (simp add: set_sort_values select_ds_y_def)
  have img: "fst ` (\<lambda>r. (ds r, y_value r)) ` set g = ds ` set g"
    by (auto simp: image_iff)
  have A: "\<forall>r \<in> set frame.
           ForecastLevel r = n \<and> key_cols r = zip c k
           \<and> (if f_ds r \<in> ds ` set g
              then \<exists>x \<in> set g. ds x = f_ds r \<and> Actual r = y_value x
              else Actual r = None)"
    unfolding h(3) by (force simp: merge_actuals_set pts img tag_def)
  have B: "distinct (map ds g) \<longrightarrow>
           (\<forall>r \<in> set frame. \<forall>x \<in> set g. ds x = f_ds r \<longrightarrow> Actual r = y_value x)"
  proof (intro impI ballI)
    fix r x
    assume d: "distinct (map ds g)" and r: "r \<in> set frame" and x: "x \<in> set g"
      and e: "ds x = f_ds r"
    from x e have m: "f_ds r \<in> ds ` set g" by force
    from A r have "if f_ds r \<in> ds ` set g
              then \<exists>x \<in> set g. ds x = f_ds r \<and> Actual r = y_value x
              else Actual r = None" by blast
    with m have "\<exists>x \<in> set g. ds x = f_ds r \<and> Actual r = y_value x" by simp
    then obtain x' where x': "x' \<in> set g" "ds x' = f_ds r" "Actual r = y_value x'"
      by blast
    from d have "inj_on ds (set g)" by (simp add: distinct_map)
    have "ds x' = ds x" using x' e by simp
    with \<open>inj_on ds (set g)\<close> have "x' = x" using x'(1) x by (rule inj_onD)
    with x' show "Actual r = y_value x" by simp
  qed
  have C: "\<forall>m fc. fit P (sort_values (select_ds_y g)) = Inr m
           \<and> predict P m (make_future_dataframe P m FORECAST_PERIOD_MONTHS MS) = Inr fc
           \<longrightarrow> (\<forall>x \<in> set g. ds x \<in> p_ds ` set fc
                  \<longrightarrow> (\<exists>r \<in> set frame. f_ds r = ds x \<and> Actual r = y_value x))"
  proof (intro allI impI ballI)
    fix m' fc' x
    assume a: "fit P (sort_values (select_ds_y g)) = Inr m'
           \<and> predict P m' (make_future_dataframe P m' FORECAST_PERIOD_MONTHS MS) = Inr fc'"
      and x: "x \<in> set g" and c: "ds x \<in> p_ds ` set fc'"
    from a h have "m' = m" "fc' = fc" by auto
    with c obtain p where p: "p \<in> set fc" "p_ds p = ds x" by auto
    let ?r = "(tag n (zip c k) p)\<lparr>Actual := y_value x\<rparr>"
    have t: "tag n (zip c k) p \<in> set (map (tag n (zip c k)) fc)" using p by simp
    have q: "(ds x, y_value x) \<in> set (sort_values (select_ds_y g))"
      unfolding pts using x by blast
    have "?r \<in> set frame"
      unfolding h(3)
      apply (subst merge_actuals_set)
      apply (rule bexI[OF _ t])
      apply (rule disjI2)
      apply (rule bexI[OF _ q])
      using p apply (simp add: tag_def)
      done
    moreover have "f_ds ?r = ds x" "Actual ?r = y_value x" using p by (simp_all add: tag_def)
    ultimately show "\<exists>r \<in> set frame. f_ds r = ds x \<and> Actual r = y_value x" by blast
  qed
  from A B C show ?thesis by blast
qed

text \<open>
  C3 on the group \<open>A\<close>: the two input dates carry the input values, the three future
  dates carry null.
\<close>

theorem actuals_joined_by_exact_date_witness:
  "forecast_group stub_prophet ''By_BCode'' [''BCode''] [Some ''A''] rows_A
      = Inr (stub_frame ''By_BCode'' [(''BCode'', Some ''A'')] forecast_A)
   \<and> map (\<lambda>r. (f_ds r, Actual r)) (stub_frame ''By_BCode'' [(''BCode'', Some ''A'')] forecast_A)
      = [(mk_date 2023 1 1, Some 1), (mk_date 2023 2 1, Some 2), (mk_date 2023 3 1, None),
         (mk_date 2023 4 1, None), (mk_date 2023 5 1, None)]
   \<and> map (\<lambda>x. (ds x, y_value x)) rows_A
      = [(mk_date 2023 1 1, Some 1), (mk_date 2023 2 1, Some 2)]
   \<and> distinct (map ds rows_A)
   \<and> Actual (stub_frame ''By_BCode'' [(''BCode'', Some ''A'')] forecast_A ! 0)
       = y_value (rows_A ! 0)
   \<and> Actual (stub_frame ''By_BCode'' [(''BCode'', Some ''A'')] forecast_A ! 1)
       = y_value (rows_A ! 1)"
proof -
  let ?frame = "stub_frame ''By_BCode'' [(''BCode'', Some ''A'')] forecast_A"
  have f: "forecast_group stub_prophet ''By_BCode'' [''BCode''] [Some ''A''] rows_A = Inr ?frame"
    using frame_A[of "''By_BCode''" "[''BCode'']" "[Some ''A'']"] by simp
  have d: "distinct (map ds rows_A)"
    by (simp add: rows_A_def mk_row_def mk_date_def)
  have m: "map (\<lambda>r. (f_ds r, Actual r)) ?frame
        = [(mk_date 2023 1 1, Some 1), (mk_date 2023 2 1, Some 2), (mk_date 2023 3 1, None),
           (mk_date 2023 4 1, None), (mk_date 2023 5 1, None)]"
    by (simp add: stub_frame_def forecast_A_def)
  have i: "map (\<lambda>x. (ds x, y_value x)) rows_A
      = [(mk_date 2023 1 1, Some 1), (mk_date 2023 2 1, Some 2)]"
    by (simp add: rows_A_def mk_row_def)
  from actuals_joined_by_exact_date[OF f] d
  have h: "\<forall>r \<in> set ?frame. \<forall>x \<in> set rows_A. ds x = f_ds r \<longrightarrow> Actual r = y_value x"
    by blast
  have r0: "?frame ! 0 \<in> set ?frame" "?frame ! 1 \<in> set ?frame"
    by (simp_all add: stub_frame_def forecast_A_def)
  have x0: "rows_A ! 0 \<in> set rows_A" "rows_A ! 1 \<in> set rows_A"
    by (simp_all add: rows_A_def)
  have e0: "ds (rows_A ! 0) = f_ds (?frame ! 0)" "ds (rows_A ! 1) = f_ds (?frame ! 1)"
    by (simp_all add: stub_frame_def forecast_A_def rows_A_def mk_row_def)
  from h r0(1) x0(1) e0(1) have a0: "Actual (?frame ! 0) = y_value (rows_A ! 0)" by blast
  from h r0(2) x0(2) e0(2) have a1: "Actual (?frame ! 1) = y_value (rows_A ! 1)" by blast
  from f m i d a0 a1 show ?thesis by (intro conjI)
qed

subsection \<open>C4: the columns of the output\<close>

text \<open>
  C4: whenever the output file is written, its header is \<open>Date\<close>, \<open>ForecastLevel\<close>, the
  sorted union of the key columns of all configured levels, \<open>Actual\<close>, \<open>Forecast\<close>,
  \<open>Forecast_Low\<close>, \<open>Forecast_High\<close>, whatever the input holds; every row has one cell per
  column, its date is an ISO calendar date string, its level is a configured level, and
  every key column that this level does not use is null. The key columns must not bear the
  name of one of the six other columns, as in the configuration of the script.
\<close>

theorem output_schema:
  assumes "output_file (main P E levels loaded) = Some t"
    and "set (all_key_cols_flat levels) \<inter> set reserved_cols = {}"
  shows "header t = [''Date'', ''ForecastLevel''] @ all_key_cols_flat levels
                    @ [''Actual'', ''Forecast'', ''Forecast_Low'', ''Forecast_High'']
    \<and> set (all_key_cols_flat levels) = (\<Union>lvl \<in> set levels. set (snd lvl))
    \<and> sorted (all_key_cols_flat levels) \<and> distinct (all_key_cols_flat levels)
    \<and> (\<forall>row \<in> set (body t).
          length row = length (header t)
          \<and> (\<exists>d. cell_at t row ''Date'' = Some (Str (strftime d)) \<and> iso_date (strftime d))
          \<and> (\<exists>n c. (n, c) \<in> set levels \<and> cell_at t row ''ForecastLevel'' = Some (Str n)
                \<and> (\<forall>col \<in> set (all_key_cols_flat levels).
                      col \<notin> set c \<longrightarrow> cell_at t row col = Some Null)))"
proof -
  from assms(1) obtain frame s where
    h: "loaded = Inr frame" "run_levels P levels \<lparr>df = frame, all_forecasts = []\<rparr> = Inr s"
      "all_forecasts s \<noteq> []" "write_error E = None" "t = final_df levels (all_forecasts s)"
    by (rule main_output_cases)
  let ?cols = "final_output_cols levels"
  have hd: "header t = ?cols" by (simp add: h(5) final_df_def)
  have rows: "\<forall>row \<in> set (body t).
          length row = length (header t)
          \<and> (\<exists>d. cell_at t row ''Date'' = Some (Str (strftime d)) \<and> iso_date (strftime d))
          \<and> (\<exists>n c. (n, c) \<in> set levels \<and> cell_at t row ''ForecastLevel'' = Some (Str n)
                \<and> (\<forall>col \<in> set (all_key_cols_flat levels).
                      col \<notin> set c \<longrightarrow> cell_at t row col = Some Null))"
  proof
    fix row assume "row \<in> set (body t)"
    then obtain f r where
      fr: "f \<in> set (all_forecasts s)" "r \<in> set f" "row = select_cols ?cols r"
      by (auto simp: h(5) final_df_def)
    from run_levels_frames[OF h(2) fr(1)] obtain n c k g where
      lv: "(n, c) \<in> set levels" "forecast_group P n c k g = Inr f" by auto
    from forecast_group_tagged[OF lv(2) fr(2)]
    have tg: "ForecastLevel r = n" "key_cols r = zip c k"
      by simp_all
    have ca: "cell_at t row col =
        (if col \<in> set ?cols
         then Some (case map_of (row_cells r) col of None \<Rightarrow> Null | Some v \<Rightarrow> v)
         else None)" for col
      unfolding cell_at_def hd fr(3) select_cols_def by (rule map_of_zip_map)
    have 1: "length row = length (header t)" by (simp add: hd fr(3) select_cols_def)
    have 2: "cell_at t row ''Date'' = Some (Str (strftime (f_ds r)))"
      by (simp add: ca row_cells_Date final_output_cols_def)
    have 3: "cell_at t row ''ForecastLevel'' = Some (Str n)"
      by (simp add: ca row_cells_ForecastLevel final_output_cols_def tg)
    have 4: "cell_at t row col = Some Null"
      if "col \<in> set (all_key_cols_flat levels)" "col \<notin> set c" for col
    proof -
      from that(1) assms(2) have "col \<notin> set reserved_cols" by auto
      moreover have "col \<notin> fst ` set (key_cols r)"
        using that(2) by (auto simp: tg dest: set_zip_leftD)
      ultimately have "map_of (row_cells r) col = None" by (rule row_cells_other)
      with that(1) show ?thesis by (simp add: ca final_output_cols_def)
    qed
    from 1 2 3 4 lv(1) iso_date_strftime[of "f_ds r"]
    show "length row = length (header t)
          \<and> (\<exists>d. cell_at t row ''Date'' = Some (Str (strftime d)) \<and> iso_date (strftime d))
          \<and> (\<exists>n c. (n, c) \<in> set levels \<and> cell_at t row ''ForecastLevel'' = Some (Str n)
                \<and> (\<forall>col \<in> set (all_key_cols_flat levels).
                      col \<notin> set c \<longrightarrow> cell_at t row col = Some Null))"
      by blast
  qed
  from hd rows show ?thesis
    by (simp add: final_output_cols_def all_key_cols_flat_set all_key_cols_flat_sorted
        all_key_cols_flat_distinct)
qed

text \<open>
  C4 on the two records of \<open>A\<close> with the levels of the script: the ten columns, the rows
  of \<open>Overall\<close> with four null key columns and the rows of \<open>By_BCode\<close> with three.
\<close>

theorem output_schema_witness:
  "output_file (main stub_prophet good_env FORECAST_LEVELS (Inr sales_A)) = Some table_A
   \<and> set (all_key_cols_flat FORECAST_LEVELS) \<inter> set reserved_cols = {}
   \<and> header table_A =
       [''Date'', ''ForecastLevel'', ''BCode'', ''CustomerName'', ''PSRCode'', ''ProductCode'',
        ''Actual'', ''Forecast'', ''Forecast_Low'', ''Forecast_High'']
   \<and> header table_A = [''Date'', ''ForecastLevel''] @ all_key_cols_flat FORECAST_LEVELS
                    @ [''Actual'', ''Forecast'', ''Forecast_Low'', ''Forecast_High'']
   \<and> body table_A ! 0
       = [Str ''2023-01-01'', Str ''Overall'', Null, Null, Null, Null, Num 1, Num 0, Num 0, Num 0]
   \<and> body table_A ! 5
       = [Str ''2023-01-01'', Str ''By_BCode'', Str ''A'', Null, Null, Null, Num 1, Num 0, Num 0,
          Num 0]"
proof -
  have o: "output_file (main stub_prophet good_env FORECAST_LEVELS (Inr sales_A)) = Some table_A"
    by (simp add: main_A)
  have r: "set (all_key_cols_flat FORECAST_LEVELS) \<inter> set reserved_cols = {}"
    by (simp add: keys_default reserved_cols_def)
  from output_schema[OF o r]
  have "header table_A = [''Date'', ''ForecastLevel''] @ all_key_cols_flat FORECAST_LEVELS
                    @ [''Actual'', ''Forecast'', ''Forecast_Low'', ''Forecast_High'']"
    by blast
  with o r show ?thesis by (simp add: table_A_def keys_default)
qed

subsection \<open>C5: the groups of a level with keys\<close>



subsection \<open>C6: the level without keys\<close>

text \<open>
  C6, as the specification states it: the one group of the level without keys holds
  precisely the records with a non-null value. The script does not look at the value: of
  the two records of \<open>sales_null_value\<close> one has no value; the script forecasts the group
  of both, while the group of the specification has one record and would be passed over.
\<close>

theorem overall_group_keeps_null_values:
  "length (rows sales_null_value) = 2
   \<and> length (overall_group_spec sales_null_value) = 1
   \<and> process_level stub_prophet (''Overall'', []) \<lparr>df = sales_null_value, all_forecasts = []\<rparr>
      \<noteq> forecast_groups stub_prophet ''Overall'' [] [([], overall_group_spec sales_null_value)]
          \<lparr>df = sales_null_value, all_forecasts = []\<rparr>"
proof -
  have a: "length (rows sales_null_value) = 2" by (simp add: sales_null_value_def)
  have b: "length (overall_group_spec sales_null_value) = 1"
    by (simp add: overall_group_spec_def sales_null_value_def mk_row_def)
  have s: "sort_values (select_ds_y (rows sales_null_value))
      = [(mk_date 2023 1 1, Some 1), (mk_date 2023 2 1, None)]"
    by (simp add: sort_values_def select_ds_y_def sales_null_value_def mk_row_def mk_date_def
        date_key_def)
  have "\<not> isl (forecast_group stub_prophet ''Overall'' [] [] (rows sales_null_value))"
    by (simp add: forecast_group_stub s mk_date_def Let_def)
  then obtain f where
    f: "forecast_group stub_prophet ''Overall'' [] [] (rows sales_null_value) = Inr f"
    by (cases "forecast_group stub_prophet ''Overall'' [] [] (rows sales_null_value)") auto
  have l: "process_level stub_prophet (''Overall'', [])
             \<lparr>df = sales_null_value, all_forecasts = []\<rparr>
     = Inr \<lparr>df = sales_null_value, all_forecasts = [f]\<rparr>"
    by (simp add: process_level_overall a f)
  have r: "forecast_groups stub_prophet ''Overall'' [] [([], overall_group_spec sales_null_value)]
          \<lparr>df = sales_null_value, all_forecasts = []\<rparr>
     = Inr \<lparr>df = sales_null_value, all_forecasts = []\<rparr>"
    by (simp add: b)
  show ?thesis by (simp add: a b l r)
qed

text \<open>
  C6, amended: for the level without keys exactly one group is formed, with the empty key
  tuple, and it contains all loaded records, whether their value is null or not; the points
  handed to the Forecaster are these records, sorted by date.
\<close>

theorem overall_group_is_all_records:
  "process_level P (n, []) s = forecast_groups P n [] [([], rows (df s))] s
   \<and> level_groups (df s) [] = [([], rows (df s))]
   \<and> mset (sort_values (select_ds_y (rows (df s)))) = mset (select_ds_y (rows (df s)))"
  by (simp add: process_level_overall sort_values_def level_groups_Nil)

subsection \<open>C7: a failing publication\<close>

text \<open>
  C7: when the output file has been written and git fails with a missing program or a
  non-zero exit status, the failure is caught by the inner handlers: the run ends with the
  report of the publishing, with exit status 0 and with the file written. The report is a
  success only when no git command failed, and a failure report stems from a failing git
  command.
\<close>

theorem publish_failure_does_not_fail_run:
  assumes "output_file (main P E levels loaded) = Some t"
    and "\<forall>argv e. git E argv \<noteq> OtherProcError e"
  shows "\<exists>p. main P E levels loaded
            = \<lparr>output_file = Some t, report = Finished p, exit_status = 0\<rparr> \<and>
     (p = Pushed \<longrightarrow>
        (\<exists>o1 o2 o3 o4. git E [''git'', ''add'', OUTPUT_CSV] = Completed o1
          \<and> git E [''git'', ''status'', ''--porcelain''] = Completed o2
          \<and> git E [''git'', ''commit'', ''-m'', ''Auto-update sales forecast: '' @ now E]
              = Completed o3
          \<and> git E [''git'', ''push''] = Completed o4)) \<and>
     (p = No_Changes \<longrightarrow>
        (\<exists>o1 o2. git E [''git'', ''add'', OUTPUT_CSV] = Completed o1
          \<and> git E [''git'', ''status'', ''--porcelain''] = Completed o2
          \<and> \<not> str_in (normalize_path OUTPUT_CSV) (normalize_path o2))) \<and>
     (p = Git_Not_Found \<longrightarrow> (\<exists>argv. git E argv = FileNotFoundError)) \<and>
     (\<forall>err out. p = Git_Error err out \<longrightarrow> (\<exists>argv. git E argv = CalledProcessError err out))"
proof -
  from assms(1) obtain frame s where
    h: "loaded = Inr frame" "run_levels P levels \<lparr>df = frame, all_forecasts = []\<rparr> = Inr s"
      "all_forecasts s \<noteq> []" "write_error E = None" "t = final_df levels (all_forecasts s)"
    by (rule main_output_cases)
  from publish_cases[OF assms(2)] obtain p where p: "publish E = Inr p"
    and rest: "(p = Pushed \<longrightarrow>
        (\<exists>o1 o2 o3 o4. git E [''git'', ''add'', OUTPUT_CSV] = Completed o1
          \<and> git E [''git'', ''status'', ''--porcelain''] = Completed o2
          \<and> git E [''git'', ''commit'', ''-m'', ''Auto-update sales forecast: '' @ now E]
              = Completed o3
          \<and> git E [''git'', ''push''] = Completed o4)) \<and>
     (p = No_Changes \<longrightarrow>
        (\<exists>o1 o2. git E [''git'', ''add'', OUTPUT_CSV] = Completed o1
          \<and> git E [''git'', ''status'', ''--porcelain''] = Completed o2
          \<and> \<not> str_in (normalize_path OUTPUT_CSV) (normalize_path o2))) \<and>
     (p = Git_Not_Found \<longrightarrow> (\<exists>argv. git E argv = FileNotFoundError)) \<and>
     (\<forall>err out. p = Git_Error err out \<longrightarrow> (\<exists>argv. git E argv = CalledProcessError err out))"
    by blast
  have "main P E levels loaded = \<lparr>output_file = Some t, report = Finished p, exit_status = 0\<rparr>"
    using main_written[OF h(2,3,4)] h(1,5) p by simp
  with rest show ?thesis by blast
qed

text \<open>C7 with a git that has no remote: the push fails, the file is written all the same.\<close>

theorem publish_failure_does_not_fail_run_witness:
  "output_file (main stub_prophet no_remote_env FORECAST_LEVELS (Inr sales_A)) = Some table_A
   \<and> (\<forall>argv e. git no_remote_env argv \<noteq> OtherProcError e)
   \<and> git no_remote_env [''git'', ''push'']
       = CalledProcessError ''fatal: No configured push destination.'' []
   \<and> main stub_prophet no_remote_env FORECAST_LEVELS (Inr sales_A)
       = \<lparr>output_file = Some table_A,
          report = Finished (Git_Error ''fatal: No configured push destination.'' []),
          exit_status = 0\<rparr>"
proof -
  have g: "\<forall>argv e. git no_remote_env argv \<noteq> OtherProcError e"
    by (simp add: no_remote_env_def)
  have pu: "git no_remote_env [''git'', ''push'']
       = CalledProcessError ''fatal: No configured push destination.'' []"
    by (simp add: no_remote_env_def)
  have o: "output_file (main stub_prophet no_remote_env FORECAST_LEVELS (Inr sales_A))
      = Some table_A"
    by (simp add: main_A_no_remote)
  from publish_failure_does_not_fail_run[OF o g] obtain p where
    "main stub_prophet no_remote_env FORECAST_LEVELS (Inr sales_A)
       = \<lparr>output_file = Some table_A, report = Finished p, exit_status = 0\<rparr>"
    by blast
  with main_A_no_remote o g pu show ?thesis by simp
qed

subsection \<open>C10: the loaded table is not changed\<close>

text \<open>
  C10: the iteration of a level works on a frame of its own; whatever rows it drops, the
  loaded table \<^verbatim>\<open>df\<close> in the state is the same before and after every iteration, so
  every level is presented the same loaded table.
\<close>

theorem levels_leave_dataset_unchanged:
  assumes "run_levels P (before @ level # after) s = Inr s'"
  shows "\<exists>s1 s2. run_levels P before s = Inr s1 \<and> df s1 = df s
           \<and> process_level P level s1 = Inr s2 \<and> df s2 = df s
           \<and> run_levels P after s2 = Inr s' \<and> df s' = df s"
proof -
  from assms obtain s1 where s1: "run_levels P before s = Inr s1"
    "run_levels P (level # after) s1 = Inr s'"
    by (auto simp: run_levels_append split: sum.splits)
  from s1(2) obtain s2 where s2: "process_level P level s1 = Inr s2"
    "run_levels P after s2 = Inr s'"
    by (auto split: sum.splits)
  have "df s1 = df s" using s1(1) by (rule run_levels_df)
  moreover have "df s2 = df s1" using s2(1) by (rule process_level_df)
  moreover have "df s' = df s2" using s2(2) by (rule run_levels_df)
  ultimately show ?thesis using s1(1) s2 by auto
qed

text \<open>
  C10 on the two records of \<open>A\<close>: the level \<open>By_BCode_Product\<close> drops every row, and the
  level \<open>By_BCode_PSR\<close> after it still starts from the two records.
\<close>

theorem levels_leave_dataset_unchanged_witness:
  "run_levels stub_prophet
      ([(''Overall'', []), (''By_BCode'', [''BCode'']),
        (''By_BCode_Product'', [''BCode'', ''ProductCode''])]
       @ (''By_BCode_PSR'', [''BCode'', ''PSRCode''])
       # [(''By_BCode_Customer'', [''BCode'', ''CustomerName''])])
      \<lparr>df = sales_A, all_forecasts = []\<rparr>
     = Inr \<lparr>df = sales_A, all_forecasts = frames_A\<rparr>
   \<and> (\<exists>s1 s2. run_levels stub_prophet
                 [(''Overall'', []), (''By_BCode'', [''BCode'']),
                  (''By_BCode_Product'', [''BCode'', ''ProductCode''])]
                 \<lparr>df = sales_A, all_forecasts = []\<rparr> = Inr s1
        \<and> df s1 = sales_A
        \<and> process_level stub_prophet (''By_BCode_PSR'', [''BCode'', ''PSRCode'']) s1 = Inr s2
        \<and> df s2 = sales_A)"
proof -
  have r: "run_levels stub_prophet
      ([(''Overall'', []), (''By_BCode'', [''BCode'']),
        (''By_BCode_Product'', [''BCode'', ''ProductCode''])]
       @ (''By_BCode_PSR'', [''BCode'', ''PSRCode''])
       # [(''By_BCode_Customer'', [''BCode'', ''CustomerName''])])
      \<lparr>df = sales_A, all_forecasts = []\<rparr>
     = Inr \<lparr>df = sales_A, all_forecasts = frames_A\<rparr>"
    using run_A by (simp add: FORECAST_LEVELS_def)
  from levels_leave_dataset_unchanged[OF r] r show ?thesis by auto
qed

subsection \<open>C8: the forecast horizon\<close>

text \<open>
  C8: the script asks the Forecaster for \<open>FORECAST_PERIOD_MONTHS = 3\<close> periods of month
  starts. With the Forecaster of the specification, whatever it refuses and estimates, the
  frame of every forecast group, of any level and with any keys, has exactly the input
  dates of the group and the three month starts beyond the last input date, which is an
  input date that no other is later than; when the input dates are distinct, the frame has
  them in ascending order followed by the three month starts, one row each. The month
  starts beyond a date are the first days of the three months after its month, and the
  first day of the next month is a calendar date later than the date itself. In particular
  a run with the level \<open>Overall\<close> first, over records with distinct dates and no
  categorical value, writes one row per input date and three more, which is 24 + 3 rows
  for 24 months of data, all of the level \<open>Overall\<close> and with every key column null. The
  further levels are any with keys among the columns of the table, which covers the
  configuration with \<open>Overall\<close> alone and the one of the script.
\<close>

theorem forecast_covers_input_dates_and_three_months:
  "(2 \<le> length g \<and> forecast_group (spec_forecaster refuse estimate) n c k g = Inr fr \<longrightarrow>
      FORECAST_PERIOD_MONTHS = 3
      \<and> last_input_date g \<in> ds ` set g
      \<and> (\<forall>r \<in> set g. date_key (ds r) \<le> date_key (last_input_date g))
      \<and> f_ds ` set fr = ds ` set g \<union> set (month_starts_after (last_input_date g) 3)
      \<and> (distinct (map ds g) \<longrightarrow>
            map f_ds fr = map fst (sort_values (select_ds_y g))
                            @ month_starts_after (last_input_date g) 3
            \<and> length fr = length g + 3))
   \<and> (month_starts_after d 3
         = [next_month d, next_month (next_month d), next_month (next_month (next_month d))]
       \<and> day (next_month d) = 1 \<and> valid_date (next_month d)
       \<and> (valid_date d \<longrightarrow> date_key d < date_key (next_month d)))
   \<and> (2 \<le> length (rows frame) \<and> distinct (map ds (rows frame))
       \<and> (\<forall>r \<in> set (rows frame). attrs r = [])
       \<and> levels = (''Overall'', []) # others
       \<and> (\<forall>lvl \<in> set others. snd lvl \<noteq> [] \<and> set (snd lvl) \<subseteq> set (columns frame))
       \<and> set (all_key_cols_flat levels) \<inter> set reserved_cols = {}
       \<and> refuse (sort_values (select_ds_y (rows frame))) = None
       \<and> write_error E = None \<longrightarrow>
       (\<exists>t. output_file (main (spec_forecaster refuse estimate) E levels (Inr frame)) = Some t
          \<and> length (body t) = length (rows frame) + 3
          \<and> map (\<lambda>row. cell_at t row ''Date'') (body t)
              = map (\<lambda>d. Some (Str (strftime d)))
                  (map fst (sort_values (select_ds_y (rows frame)))
                     @ month_starts_after (last_input_date (rows frame)) 3)
          \<and> (\<forall>row \<in> set (body t).
                cell_at t row ''ForecastLevel'' = Some (Str ''Overall'')
                \<and> (\<forall>col \<in> set (all_key_cols_flat levels). cell_at t row col = Some Null))))"
proof (intro conjI impI)
  assume "2 \<le> length g \<and> forecast_group (spec_forecaster refuse estimate) n c k g = Inr fr"
  then have g: "2 \<le> length g"
    and f: "forecast_group (spec_forecaster refuse estimate) n c k g = Inr fr" by simp_all
  from g have ne: "g \<noteq> []" by auto
  show "FORECAST_PERIOD_MONTHS = 3" by (simp add: FORECAST_PERIOD_MONTHS_def)
  show "last_input_date g \<in> ds ` set g" using ne by (rule last_input_date_mem)
  show "\<forall>r \<in> set g. date_key (ds r) \<le> date_key (last_input_date g)"
    by (intro ballI last_input_date_max)
  show "f_ds ` set fr = ds ` set g \<union> set (month_starts_after (last_input_date g) 3)"
    using g f by (rule forecast_group_horizon(1))
  assume d: "distinct (map ds g)"
  show "map f_ds fr = map fst (sort_values (select_ds_y g))
                        @ month_starts_after (last_input_date g) 3"
    using g f d by (rule forecast_group_horizon(2))
  show "length fr = length g + 3"
    using g f d by (rule forecast_group_horizon(3))
next
  show "month_starts_after d 3
         = [next_month d, next_month (next_month d), next_month (next_month (next_month d))]"
    by (rule month_starts_after_3)
  show "day (next_month d) = 1" by (rule next_month_day)
  show "valid_date (next_month d)" by (rule next_month_valid)
next
  assume "valid_date d"
  then show "date_key d < date_key (next_month d)" by (rule next_month_later)
next
  assume h: "2 \<le> length (rows frame) \<and> distinct (map ds (rows frame))
       \<and> (\<forall>r \<in> set (rows frame). attrs r = [])
       \<and> levels = (''Overall'', []) # others
       \<and> (\<forall>lvl \<in> set others. snd lvl \<noteq> [] \<and> set (snd lvl) \<subseteq> set (columns frame))
       \<and> set (all_key_cols_flat levels) \<inter> set reserved_cols = {}
       \<and> refuse (sort_values (select_ds_y (rows frame))) = None
       \<and> write_error E = None"
  show "\<exists>t. output_file (main (spec_forecaster refuse estimate) E levels (Inr frame)) = Some t
          \<and> length (body t) = length (rows frame) + 3
          \<and> map (\<lambda>row. cell_at t row ''Date'') (body t)
              = map (\<lambda>d. Some (Str (strftime d)))
                  (map fst (sort_values (select_ds_y (rows frame)))
                     @ month_starts_after (last_input_date (rows frame)) 3)
          \<and> (\<forall>row \<in> set (body t).
                cell_at t row ''ForecastLevel'' = Some (Str ''Overall'')
                \<and> (\<forall>col \<in> set (all_key_cols_flat levels). cell_at t row col = Some Null))"
    by (rule overall_run_spec) (use h in blast)+
qed

text \<open>
  C8 on the months from January 2022 to December 2023 with the levels of the script, and a
  Forecaster that refuses nothing and estimates 0.
\<close>

theorem forecast_covers_input_dates_and_three_months_witness:
  "length (rows sales_24_months) = 24
   \<and> distinct (map ds (rows sales_24_months))
   \<and> map ds (rows sales_24_months) = map month_start [24264 ..< 24288]
   \<and> month_start 24264 = mk_date 2022 1 1
   \<and> last_input_date (rows sales_24_months) = mk_date 2023 12 1
   \<and> valid_date (mk_date 2023 12 1)
   \<and> date_key (mk_date 2023 12 1) < date_key (mk_date 2024 1 1)
   \<and> month_starts_after (mk_date 2023 12 1) 3
        = [mk_date 2024 1 1, mk_date 2024 2 1, mk_date 2024 3 1]
   \<and> write_error good_env = None
   \<and> (\<exists>fr. forecast_group (spec_forecaster (\<lambda>ps. None) (\<lambda>ps d. (0, 0, 0))) ''Overall'' [] []
              (rows sales_24_months) = Inr fr
          \<and> length fr = 27
          \<and> map f_ds fr = map month_start [24264 ..< 24288]
                            @ [mk_date 2024 1 1, mk_date 2024 2 1, mk_date 2024 3 1])
   \<and> (\<exists>t. output_file (main (spec_forecaster (\<lambda>ps. None) (\<lambda>ps d. (0, 0, 0))) good_env
                          FORECAST_LEVELS (Inr sales_24_months)) = Some t
          \<and> length (body t) = 27
          \<and> map (\<lambda>row. cell_at t row ''Date'') (body t)
              = map (\<lambda>d. Some (Str (strftime d)))
                  (map month_start [24264 ..< 24288]
                     @ [mk_date 2024 1 1, mk_date 2024 2 1, mk_date 2024 3 1])
          \<and> (\<forall>row \<in> set (body t).
                cell_at t row ''ForecastLevel'' = Some (Str ''Overall'')
                \<and> (\<forall>col \<in> set [''BCode'', ''CustomerName'', ''PSRCode'', ''ProductCode''].
                      cell_at t row col = Some Null)))"
proof -
  let ?P = "spec_forecaster (\<lambda>ps. None) (\<lambda>ps d. (0, 0, 0))"
  let ?g = "rows sales_24_months"
  let ?L = "mk_date 2023 12 1"
  let ?H = "[mk_date 2024 1 1, mk_date 2024 2 1, mk_date 2024 3 1]"
  let ?others = "[(''By_BCode'', [''BCode'']),
      (''By_BCode_Product'', [''BCode'', ''ProductCode'']),
      (''By_BCode_PSR'', [''BCode'', ''PSRCode'']),
      (''By_BCode_Customer'', [''BCode'', ''CustomerName''])]"
  have len: "length ?g = 24" by (simp add: sales_24_months_def)
  then have l2: "2 \<le> length ?g" by simp
  have d: "distinct (map ds ?g)"
    unfolding rows_24_dates
    by (intro distinct_map[THEN iffD2] conjI distinct_upt inj_on_subset[OF month_start_inj]
        subset_UNIV)
  have u: "\<forall>r \<in> set ?g. attrs r = []"
    by (auto simp: sales_24_months_def mk_row_def)
  have lv: "FORECAST_LEVELS = (''Overall'', []) # ?others"
    by (simp add: FORECAST_LEVELS_def)
  have ot: "\<forall>lvl \<in> set ?others.
      snd lvl \<noteq> [] \<and> set (snd lvl) \<subseteq> set (columns sales_24_months)"
    by (simp add: sales_24_months_def key_columns_def)
  have rs: "set (all_key_cols_flat FORECAST_LEVELS) \<inter> set reserved_cols = {}"
    by (simp add: keys_default reserved_cols_def)
  have w: "write_error good_env = None" by (simp add: good_env_def)
  have m1: "month_start 24264 = mk_date 2022 1 1"
    by (simp add: month_start_def mk_date_def)
  have v: "valid_date ?L" by (simp add: valid_date_def mk_date_def)
  have nm: "next_month ?L = mk_date 2024 1 1"
    "next_month (mk_date 2024 1 1) = mk_date 2024 2 1"
    "next_month (mk_date 2024 2 1) = mk_date 2024 3 1"
    by (simp_all add: next_month_def mk_date_def)
  obtain fr where fr: "forecast_group ?P ''Overall'' [] [] ?g = Inr fr"
    using forecast_group_spec_accepts[of "\<lambda>ps. None" ?g] by blast
  note T = forecast_covers_input_dates_and_three_months
             [where g = ?g and refuse = "\<lambda>ps. None" and estimate = "\<lambda>ps d. (0, 0, 0)"
                and n = "''Overall''" and c = "[]" and k = "[]" and fr = fr and d = ?L
                and frame = sales_24_months and levels = FORECAST_LEVELS and others = ?others
                and E = good_env]
  note T1 = T[THEN conjunct1, THEN mp, OF conjI[OF l2 fr]]
  note T2 = T[THEN conjunct2, THEN conjunct1]
  note T3 = T[THEN conjunct2, THEN conjunct2]
  note T1d = T1[THEN conjunct2, THEN conjunct2, THEN conjunct2, THEN conjunct2, THEN mp, OF d]
  have A: "map f_ds fr = map fst (sort_values (select_ds_y ?g))
                            @ month_starts_after (last_input_date ?g) 3"
    "length fr = length ?g + 3"
    using T1d by (rule conjunct1, rule conjunct2)
  have H: "month_starts_after ?L 3 = ?H"
    using T2[THEN conjunct1] unfolding nm .
  have lt: "date_key ?L < date_key (mk_date 2024 1 1)"
    using T2[THEN conjunct2, THEN conjunct2, THEN conjunct2, THEN mp, OF v] unfolding nm .
  have hyp: "2 \<le> length ?g \<and> distinct (map ds ?g)
       \<and> (\<forall>r \<in> set ?g. attrs r = [])
       \<and> FORECAST_LEVELS = (''Overall'', []) # ?others
       \<and> (\<forall>lvl \<in> set ?others. snd lvl \<noteq> [] \<and> set (snd lvl) \<subseteq> set (columns sales_24_months))
       \<and> set (all_key_cols_flat FORECAST_LEVELS) \<inter> set reserved_cols = {}
       \<and> (None :: exn option) = None
       \<and> write_error good_env = None"
    by (intro conjI l2 d u lv ot rs refl w)
  from T3[THEN mp, OF hyp] obtain t where
    t: "output_file (main ?P good_env FORECAST_LEVELS (Inr sales_24_months)) = Some t"
       "length (body t) = length ?g + 3"
       "map (\<lambda>row. cell_at t row ''Date'') (body t)
          = map (\<lambda>d. Some (Str (strftime d)))
              (map fst (sort_values (select_ds_y ?g))
                 @ month_starts_after (last_input_date ?g) 3)"
       "\<forall>row \<in> set (body t).
          cell_at t row ''ForecastLevel'' = Some (Str ''Overall'')
          \<and> (\<forall>col \<in> set (all_key_cols_flat FORECAST_LEVELS). cell_at t row col = Some Null)"
    by blast
  have A1: "map f_ds fr = map month_start [24264 ..< 24288] @ ?H"
    using A(1) unfolding dates_24 last_24 H .
  have A2: "length fr = 27" using A(2) len by simp
  have t2: "length (body t) = 27" using t(2) len by simp
  have t3: "map (\<lambda>row. cell_at t row ''Date'') (body t)
          = map (\<lambda>d. Some (Str (strftime d))) (map month_start [24264 ..< 24288] @ ?H)"
    using t(3) unfolding dates_24 last_24 H .
  note t4 = t(4)[unfolded keys_default]
  have G: "\<exists>fr. forecast_group ?P ''Overall'' [] [] ?g = Inr fr
          \<and> length fr = 27
          \<and> map f_ds fr = map month_start [24264 ..< 24288] @ ?H"
    by (rule exI[of _ fr]) (intro conjI fr A2 A1)
  have R: "\<exists>t. output_file (main ?P good_env FORECAST_LEVELS (Inr sales_24_months)) = Some t
          \<and> length (body t) = 27
          \<and> map (\<lambda>row. cell_at t row ''Date'') (body t)
              = map (\<lambda>d. Some (Str (strftime d))) (map month_start [24264 ..< 24288] @ ?H)
          \<and> (\<forall>row \<in> set (body t).
                cell_at t row ''ForecastLevel'' = Some (Str ''Overall'')
                \<and> (\<forall>col \<in> set [''BCode'', ''CustomerName'', ''PSRCode'', ''ProductCode''].
                      cell_at t row col = Some Null))"
    by (rule exI[of _ t]) (intro conjI t(1) t2 t3 t4)
  show ?thesis
    by (intro conjI len d rows_24_dates m1 last_24 v lt H w G R)
qed

end
